theory Spec2Isabelle
  imports Complex_Main
begin

section \<open>Python values used by the routes\<close>

text \<open>
  The routes of \<^verbatim>\<open>app/routes/whatsapp.py\<close> and \<^verbatim>\<open>app/routes/jobs.py\<close> work on
  MongoDB documents (Python dicts). Strings are \<^typ>\<open>string\<close>; a key that may be
  absent or \<^verbatim>\<open>None\<close> is an \<^typ>\<open>'a option\<close>. Identifiers of the source that start
  with an underscore lose it (\<^verbatim>\<open>_pick_active_sector\<close> is \<open>pick_active_sector\<close>).
\<close>

text \<open>
  \<^verbatim>\<open>str.upper()\<close> on the ASCII letters; every other byte is left as it is (the
  status and photo-type tokens of this program are ASCII).
\<close>

definition upper_char :: "char \<Rightarrow> char" where
  "upper_char c =
     (case map_of (zip ''abcdefghijklmnopqrstuvwxyz'' ''ABCDEFGHIJKLMNOPQRSTUVWXYZ'') c of
        None \<Rightarrow> c
      | Some u \<Rightarrow> u)"

definition upper :: "string \<Rightarrow> string" where
  "upper s = map upper_char s"

text \<open>\<^verbatim>\<open>x or d\<close> for an optional string: \<^verbatim>\<open>None\<close> and \<^verbatim>\<open>""\<close> are falsy.\<close>

fun str_or :: "string option \<Rightarrow> string \<Rightarrow> string" where
  "str_or None d = d"
| "str_or (Some s) d = (if s = [] then d else s)"

text \<open>Truthiness of an optional string (\<^verbatim>\<open>if expected\<close>, \<^verbatim>\<open>if p.get("phash")\<close>).\<close>

fun truthy_str :: "string option \<Rightarrow> bool" where
  "truthy_str None = False"
| "truthy_str (Some s) = (s \<noteq> [])"

text \<open>
  Values of the open \<^verbatim>\<open>fields\<close> and \<^verbatim>\<open>checks\<close> maps of a verdict; a map is an
  association list read with \<^const>\<open>map_of\<close> (\<^verbatim>\<open>d.get(k)\<close>).
\<close>

datatype jval = JNull | JStr string | JNum real | JBool bool

type_synonym jdict = "(string \<times> jval) list"

fun truthy :: "jval option \<Rightarrow> bool" where
  "truthy None = False"
| "truthy (Some JNull) = False"
| "truthy (Some (JStr s)) = (s \<noteq> [])"
| "truthy (Some (JNum x)) = (x \<noteq> 0)"
| "truthy (Some (JBool b)) = b"

fun is_not_none :: "jval option \<Rightarrow> bool" where
  "is_not_none None = False"
| "is_not_none (Some JNull) = False"
| "is_not_none (Some v) = True"

section \<open>Documents\<close>

text \<open>
  A sector block as \<^verbatim>\<open>create_or_extend_job\<close> and \<^verbatim>\<open>debug_upload\<close> write it
  (\<^verbatim>\<open>schemas.SectorProgress\<close>): the four keys are always present, so
  \<^verbatim>\<open>int(s.get("currentIndex", 0) or 0)\<close>, \<^verbatim>\<open>s.get("requiredTypes") or []\<close>,
  \<^verbatim>\<open>s.get("status") or ""\<close> and \<^verbatim>\<open>int(s.get("sector"))\<close> read the stored value
  (and the \<^verbatim>\<open>int\<close> conversions never raise).
\<close>

record sector_doc =
  sector :: int
  requiredTypes :: "string list"
  currentIndex :: int
  status :: string

text \<open>A job document; \<open>j_id\<close> is \<^verbatim>\<open>_id\<close>, \<open>j_status\<close> is the job's \<^verbatim>\<open>status\<close>.\<close>

record job =
  j_id :: nat
  workerPhone :: string
  siteId :: string
  sectors :: "sector_doc list"
  j_status :: string
  createdAt :: "string option"
  macId :: "jval option"
  rsnId :: "jval option"
  azimuthDeg :: "jval option"

section \<open>Sector helpers of whatsapp.py\<close>

fun sector_by_id :: "sector_doc list \<Rightarrow> int \<Rightarrow> sector_doc option" where
  "sector_by_id [] sid = None"
| "sector_by_id (s # ss) sid = (if sector s = sid then Some s else sector_by_id ss sid)"

definition current_expected_type_for_sector :: "job \<Rightarrow> int \<Rightarrow> string option" where
  "current_expected_type_for_sector j sid =
     (case sector_by_id (sectors j) sid of
        None \<Rightarrow> None
      | Some sec \<Rightarrow>
          (let idx = currentIndex sec; req = requiredTypes sec
           in if 0 \<le> idx \<and> idx < int (length req) then Some (req ! nat idx) else None))"

text \<open>The loop of \<^verbatim>\<open>_pick_active_sector\<close> over the stored sector list.\<close>

fun pick_active_sector_loop :: "sector_doc list \<Rightarrow> int option" where
  "pick_active_sector_loop [] = None"
| "pick_active_sector_loop (s # ss) =
     (let st = upper (status s); req = requiredTypes s; idx = currentIndex s
      in if st \<noteq> ''DONE'' \<and> idx < int (length req) then Some (sector s)
         else pick_active_sector_loop ss)"

definition pick_active_sector :: "job \<Rightarrow> int option" where
  "pick_active_sector j = pick_active_sector_loop (sectors j)"

fun all_sectors_done_loop :: "sector_doc list \<Rightarrow> bool" where
  "all_sectors_done_loop [] = True"
| "all_sectors_done_loop (s # ss) =
     (let st = upper (status s); req = requiredTypes s; idx = currentIndex s
      in if st \<noteq> ''DONE'' \<and> idx < int (length req) then False
         else all_sectors_done_loop ss)"

definition all_sectors_done :: "sector_doc list \<Rightarrow> bool" where
  "all_sectors_done secs = (if secs = [] then False else all_sectors_done_loop secs)"

text \<open>
  The three status tokens the program writes (\<^verbatim>\<open>Literal["PENDING", "IN_PROGRESS", "DONE"]\<close>
  in \<^verbatim>\<open>schemas.py\<close>); on them \<^verbatim>\<open>.upper()\<close> changes nothing.
\<close>

definition canonical_status :: "string \<Rightarrow> bool" where
  "canonical_status st = (st = ''PENDING'' \<or> st = ''IN_PROGRESS'' \<or> st = ''DONE'')"

section \<open>The document store\<close>

text \<open>
  A photo document. \<open>jobId\<close> holds \<^verbatim>\<open>str(job["_id"])\<close>, modelled by the job's
  identifier itself; the fields prefixed with \<open>p_\<close> are the keys \<^verbatim>\<open>sector\<close>, \<^verbatim>\<open>type\<close>,
  \<^verbatim>\<open>fields\<close>, \<^verbatim>\<open>checks\<close> and \<^verbatim>\<open>status\<close>. The status is optional because the orchestrator stores
  \<^verbatim>\<open>result.get("status")\<close> as it comes.
\<close>

record photo =
  jobId :: nat
  p_sector :: int
  p_type :: string
  s3Key :: string
  s3Url :: "string option"
  phash :: "string option"
  ocrText :: "string option"
  p_fields :: jdict
  p_checks :: jdict
  p_status :: "string option"
  reason :: "string list"

text \<open>
  The two collections, each in insertion order (the order of \<^verbatim>\<open>_id\<close>). The store's
  own operations are total here: a network failure inside the store is not modelled,
  except for the inserts that the routes guard with \<^verbatim>\<open>try\<close>.
\<close>

record db =
  jobs :: "job list"
  photos :: "photo list"

text \<open>\<^verbatim>\<open>update_one(filter, update)\<close>: the first document that matches is updated.\<close>

fun update_one :: "('d \<Rightarrow> bool) \<Rightarrow> ('d \<Rightarrow> 'd) \<Rightarrow> 'd list \<Rightarrow> 'd list" where
  "update_one q f [] = []"
| "update_one q f (x # xs) = (if q x then f x # xs else x # update_one q f xs)"

text \<open>
  \<^verbatim>\<open>find_one(filter, sort=[("_id", -1)])\<close> followed by \<^verbatim>\<open>update_one({"_id": ...})\<close>:
  the last inserted document that matches is updated, if there is one.
\<close>

definition update_last :: "('d \<Rightarrow> bool) \<Rightarrow> ('d \<Rightarrow> 'd) \<Rightarrow> 'd list \<Rightarrow> 'd list" where
  "update_last q f xs = rev (update_one q f (rev xs))"

text \<open>
  \<^verbatim>\<open>{"_id": jid, "sectors.sector": sid}\<close> with \<^verbatim>\<open>{"$inc": {"sectors.$.currentIndex": 1}}\<close>:
  the first job with that identifier and some sector numbered \<open>sid\<close>; in it the
  positional operator addresses the first such sector.
\<close>

definition inc_currentIndex :: "nat \<Rightarrow> int \<Rightarrow> job list \<Rightarrow> job list" where
  "inc_currentIndex jid sid js =
     update_one (\<lambda>j. j_id j = jid \<and> list_ex (\<lambda>s. sector s = sid) (sectors j))
       (\<lambda>j. j\<lparr>sectors := update_one (\<lambda>s. sector s = sid)
                              (\<lambda>s. s\<lparr>currentIndex := currentIndex s + 1\<rparr>) (sectors j)\<rparr>) js"

text \<open>The same filter with \<^verbatim>\<open>{"$set": {"sectors.$.status": "DONE"}}\<close>.\<close>

definition set_sector_done :: "nat \<Rightarrow> int \<Rightarrow> job list \<Rightarrow> job list" where
  "set_sector_done jid sid js =
     update_one (\<lambda>j. j_id j = jid \<and> list_ex (\<lambda>s. sector s = sid) (sectors j))
       (\<lambda>j. j\<lparr>sectors := update_one (\<lambda>s. sector s = sid)
                              (\<lambda>s. s\<lparr>status := ''DONE''\<rparr>) (sectors j)\<rparr>) js"

text \<open>\<^verbatim>\<open>update_one({"_id": jid}, {"$set": {"status": st}})\<close>.\<close>

definition set_job_status :: "nat \<Rightarrow> string \<Rightarrow> job list \<Rightarrow> job list" where
  "set_job_status jid st js = update_one (\<lambda>j. j_id j = jid) (\<lambda>j. j\<lparr>j_status := st\<rparr>) js"

text \<open>\<^verbatim>\<open>update_one({"_id": jid}, {"$push": {"sectors": block}})\<close>.\<close>

definition push_sector :: "nat \<Rightarrow> sector_doc \<Rightarrow> job list \<Rightarrow> job list" where
  "push_sector jid block js =
     update_one (\<lambda>j. j_id j = jid) (\<lambda>j. j\<lparr>sectors := sectors j @ [block]\<rparr>) js"

text \<open>\<^verbatim>\<open>insert_one\<close> assigns an identifier that no stored job has.\<close>

definition fresh_id :: "job list \<Rightarrow> nat" where
  "fresh_id js = Suc (fold max (map j_id js) 0)"

section \<open>The verdict of the validation pipeline\<close>

text \<open>
  The dict that \<^verbatim>\<open>run_pipeline\<close> returns (\<^verbatim>\<open>app.services.validate\<close>, an external
  collaborator); every key is read with \<^verbatim>\<open>result.get\<close>, so every key is optional.
\<close>

record verdict =
  r_type :: "string option"
  r_status :: "string option"
  r_reason :: "string list option"
  r_phash :: "string option"
  r_ocrText :: "string option"
  r_fields :: "jdict option"
  r_checks :: "jdict option"

type_synonym bytes = "nat list"


section \<open>Blocks shared by the orchestrator and the direct upload\<close>

text \<open>
  \<^verbatim>\<open>_process_and_notify\<close> and \<^verbatim>\<open>debug_upload\<close> contain the same statements for the
  reference hashes, the job-level rollup, the effective type and the advance; each block
  is one definition here, named after what the source's comment calls it.
\<close>

text \<open>Previous phashes for this sector and this expected type (whatsapp.py 161-173, 480-492).\<close>

definition prev_phashes :: "photo list \<Rightarrow> nat \<Rightarrow> int \<Rightarrow> string option \<Rightarrow> string list" where
  "prev_phashes ps jid sid expected =
     map (\<lambda>p. the (phash p))
       (filter (\<lambda>p. truthy_str (phash p))
          (filter (\<lambda>p. jobId p = jid \<and> p_sector p = sid \<and> p_type p = upper (str_or expected [])
                       \<and> (p_status p = Some ''PASS'' \<or> p_status p = Some ''FAIL'')) ps))"

text \<open>The \<^verbatim>\<open>updates\<close> dict built from the verdict's fields (whatsapp.py 183-190).\<close>

definition rollup_updates :: "jdict \<Rightarrow> jdict" where
  "rollup_updates flds =
     (if truthy (map_of flds ''macId'') then [(''macId'', the (map_of flds ''macId''))] else [])
     @ (if truthy (map_of flds ''rsn'') then [(''rsnId'', the (map_of flds ''rsn''))] else [])
     @ (if is_not_none (map_of flds ''azimuthDeg'')
        then [(''azimuthDeg'', the (map_of flds ''azimuthDeg''))] else [])"

definition set_rollups :: "jdict \<Rightarrow> job \<Rightarrow> job" where
  "set_rollups u j =
     j\<lparr>macId := (case map_of u ''macId'' of None \<Rightarrow> macId j | Some v \<Rightarrow> Some v),
       rsnId := (case map_of u ''rsnId'' of None \<Rightarrow> rsnId j | Some v \<Rightarrow> Some v),
       azimuthDeg := (case map_of u ''azimuthDeg'' of None \<Rightarrow> azimuthDeg j | Some v \<Rightarrow> Some v)\<rparr>"

definition promote_fields :: "verdict \<Rightarrow> nat \<Rightarrow> job list \<Rightarrow> job list" where
  "promote_fields result jid js =
     (let flds = (case r_fields result of None \<Rightarrow> [] | Some f \<Rightarrow> f);
          updates = rollup_updates flds
      in if updates \<noteq> [] then update_one (\<lambda>j. j_id j = jid) (set_rollups updates) js else js)"

text \<open>\<^verbatim>\<open>(result.get("type") or expected or "LABELLING").upper()\<close> (whatsapp.py 194, 519).\<close>

definition effective_type :: "verdict \<Rightarrow> string option \<Rightarrow> string" where
  "effective_type result expected = upper (str_or (r_type result) (str_or expected ''LABELLING''))"

text \<open>The \<^verbatim>\<open>$set\<close> written to the photo (whatsapp.py 201-209).\<close>

definition resolve_photo :: "verdict \<Rightarrow> string \<Rightarrow> photo \<Rightarrow> photo" where
  "resolve_photo result result_type p =
     p\<lparr>p_type := result_type,
       phash := r_phash result,
       ocrText := r_ocrText result,
       p_fields := (case r_fields result of None \<Rightarrow> [] | Some f \<Rightarrow> f),
       p_checks := (case r_checks result of None \<Rightarrow> [] | Some c \<Rightarrow> c),
       p_status := r_status result,
       reason := (case r_reason result of None \<Rightarrow> [] | Some r \<Rightarrow> r)\<rparr>"

text \<open>
  Advance this sector only (whatsapp.py 213-231, 543-558). The result is the job
  collection and the value of the variable \<^verbatim>\<open>job\<close> afterwards; \<open>None\<close> for the
  variable stands for the \<^verbatim>\<open>AttributeError\<close> that a failed reload raises at the next
  \<^verbatim>\<open>job.get\<close>.
\<close>

definition advance_sector ::
  "verdict \<Rightarrow> string option \<Rightarrow> string \<Rightarrow> int \<Rightarrow> job \<Rightarrow> job list \<Rightarrow> job list \<times> job option" where
  "advance_sector result expected result_type sid job0 js =
     (let status = upper (str_or (r_status result) [])
      in if status = ''PASS'' \<and> truthy_str expected \<and> Some result_type = expected then
           (let js1 = inc_currentIndex (j_id job0) sid js
            in case find (\<lambda>j. j_id j = j_id job0) js1 of
                 None \<Rightarrow> (js1, None)
               | Some job1 \<Rightarrow>
                   (case sector_by_id (sectors job1) sid of
                      None \<Rightarrow> (js1, Some job1)
                    | Some sec_doc \<Rightarrow>
                        (let idx = currentIndex sec_doc; req = requiredTypes sec_doc
                         in if int (length req) \<le> idx then
                              (let js2 = set_sector_done (j_id job1) sid js1
                               in (js2, find (\<lambda>j. j_id j = j_id job1) js2))
                            else (js1, Some job1))))
         else (js, Some job0))"

text \<open>
  What the two positional updates of the advance block do to the sector list of the job:
  the increment, then the DONE mark if the reloaded sector is exhausted. It is used to state
  the effect of \<open>advance_sector\<close> on the stored job.
\<close>

definition advanced_sectors :: "int \<Rightarrow> sector_doc list \<Rightarrow> sector_doc list" where
  "advanced_sectors sid secs =
     (let secs1 = update_one (\<lambda>s. sector s = sid)
                    (\<lambda>s. s\<lparr>currentIndex := currentIndex s + 1\<rparr>) secs
      in case sector_by_id secs1 sid of
           None \<Rightarrow> secs1
         | Some sec_doc \<Rightarrow>
             if int (length (requiredTypes sec_doc)) \<le> currentIndex sec_doc
             then update_one (\<lambda>s. sector s = sid) (\<lambda>s. s\<lparr>status := ''DONE''\<rparr>) secs1
             else secs1)"

text \<open>The condition of the advance (whatsapp.py 214, 543) on a verdict and an expected type.\<close>

definition advance_condition :: "verdict \<Rightarrow> string option \<Rightarrow> bool" where
  "advance_condition result expected =
     (upper (str_or (r_status result) []) = ''PASS'' \<and> truthy_str expected
      \<and> Some (effective_type result expected) = expected)"

text \<open>If all sectors are done, mark the whole job DONE (whatsapp.py 234-235, 561-562).\<close>

definition mark_job_done :: "job \<Rightarrow> job list \<Rightarrow> job list" where
  "mark_job_done job0 js =
     (if all_sectors_done (sectors job0) then set_job_status (j_id job0) ''DONE'' js else js)"

section \<open>The Validation Orchestrator\<close>

text \<open>
  \<^verbatim>\<open>_process_and_notify\<close>. \<open>load_bgr\<close>, \<open>downscale_for_ocr\<close> and \<open>run_pipeline\<close> are
  the external image functions; \<open>None\<close> from \<open>load_bgr\<close> is an undecodable image, \<open>None\<close>
  from \<open>run_pipeline\<close> an exception of the pipeline. Every exception ends the task in the
  \<^verbatim>\<open>except\<close> clause with the store as it is at that moment. Steps 8 and 9 (composing
  and sending the message) read the job and write nothing to the store; they are not part
  of the returned state.
\<close>

definition process_and_notify ::
  "(bytes \<Rightarrow> 'img option) \<Rightarrow> ('img \<Rightarrow> 'img) \<Rightarrow>
   ('img \<Rightarrow> string option \<Rightarrow> string list \<Rightarrow> verdict option) \<Rightarrow>
   db \<Rightarrow> nat \<Rightarrow> int \<Rightarrow> bytes \<Rightarrow> db" where
  "process_and_notify load_bgr downscale_for_ocr run_pipeline d job_id active_sector image_bytes =
     (case find (\<lambda>j. j_id j = job_id) (jobs d) of
        None \<Rightarrow> d
      | Some job0 \<Rightarrow>
          (let expected = current_expected_type_for_sector job0 active_sector
           in case load_bgr image_bytes of
                None \<Rightarrow> d
              | Some img \<Rightarrow>
                  (let img_small = downscale_for_ocr img;
                       prev = prev_phashes (photos d) (j_id job0) active_sector expected
                   in case run_pipeline img_small expected prev of
                        None \<Rightarrow> d
                      | Some result \<Rightarrow>
                          (let js1 = promote_fields result (j_id job0) (jobs d);
                               result_type = effective_type result expected;
                               ps1 = update_last (\<lambda>p. jobId p = j_id job0)
                                       (resolve_photo result result_type) (photos d)
                           in case advance_sector result expected result_type active_sector job0 js1 of
                                (js2, None) \<Rightarrow> \<lparr>jobs = js2, photos = ps1\<rparr>
                              | (js2, Some job2) \<Rightarrow>
                                  \<lparr>jobs = mark_job_done job2 js2, photos = ps1\<rparr>))))"

section \<open>The Ingestion Handler\<close>

text \<open>
  The form of an inbound Twilio request. \<open>NumMedia\<close> is the decimal count the transport
  sends, already read as a number.
\<close>

record form =
  From :: "string option"
  WaId :: "string option"
  NumMedia :: "int option"
  MediaUrl0 :: "string option"
  MediaContentType0 :: "string option"

datatype request_body = FormBody form | JsonBody | BadBody

datatype reply =
    Unsupported415
  | BadRequest400
  | InternalError500
  | NoActiveJob
  | AllSectorsComplete
  | PromptFor string
  | SendValidImage string
  | CouldNotDownload string
  | CouldNotSave
  | GotPhoto

text \<open>The arguments of the background task \<^verbatim>\<open>background.add_task(_process_and_notify, ...)\<close>.\<close>

record task =
  t_worker :: string
  t_job_id :: nat
  t_sector :: int
  t_hint :: string
  t_data :: bytes

text \<open>
  What the handler calls outside the store: \<open>normalize_phone\<close> (\<^verbatim>\<open>app.utils\<close>),
  \<open>fetch_media\<close> (\<open>None\<close> when the download raises), \<open>new_image_key\<close> (given the job,
  the sector and the type token of the key's \<^verbatim>\<open>kind\<close>; it draws a timestamp and a
  random suffix), \<open>put_bytes\<close> (\<open>None\<close> when the blob store raises) and whether
  \<^verbatim>\<open>db.photos.insert_one\<close> raises.
\<close>

record ext =
  normalize_phone :: "string \<Rightarrow> string"
  fetch_media :: "string \<Rightarrow> bytes option"
  new_image_key :: "nat \<Rightarrow> int \<Rightarrow> string \<Rightarrow> string"
  put_bytes :: "string \<Rightarrow> bytes \<Rightarrow> string option"
  insert_one_raises :: bool

text \<open>The placeholder document of whatsapp.py 379-391.\<close>

definition placeholder_photo :: "nat \<Rightarrow> int \<Rightarrow> string \<Rightarrow> string \<Rightarrow> string option \<Rightarrow> photo" where
  "placeholder_photo jid sid result_hint key s3_url =
     \<lparr>jobId = jid, p_sector = sid, p_type = result_hint, s3Key = key, s3Url = s3_url,
      phash = None, ocrText = None, p_fields = [], p_checks = [],
      p_status = Some ''PROCESSING'', reason = []\<rparr>"

text \<open>
  \<^verbatim>\<open>whatsapp_webhook\<close>: the store afterwards, the reply, and the background task if one
  was scheduled.
\<close>

definition whatsapp_webhook :: "ext \<Rightarrow> db \<Rightarrow> request_body \<Rightarrow> db \<times> reply \<times> task option" where
  "whatsapp_webhook x d body =
     (case body of
        JsonBody \<Rightarrow> (d, Unsupported415, None)
      | BadBody \<Rightarrow> (d, BadRequest400, None)
      | FormBody frm \<Rightarrow>
          (let from_param = str_or (From frm) (str_or (WaId frm) []);
               from_num = normalize_phone x from_param;
               media_count = (case NumMedia frm of None \<Rightarrow> 0 | Some n \<Rightarrow> n)
           in case find (\<lambda>j. workerPhone j = from_num
                              \<and> (j_status j = ''PENDING'' \<or> j_status j = ''IN_PROGRESS'')) (jobs d) of
                None \<Rightarrow> (d, NoActiveJob, None)
              | Some job0 \<Rightarrow>
                  (let js1 = (if j_status job0 = ''PENDING''
                              then set_job_status (j_id job0) ''IN_PROGRESS'' (jobs d) else jobs d);
                       job1 = (if j_status job0 = ''PENDING''
                               then find (\<lambda>j. j_id j = j_id job0) js1 else Some job0);
                       d1 = d\<lparr>jobs := js1\<rparr>
                   in case job1 of
                        None \<Rightarrow> (d1, InternalError500, None)
                      | Some job2 \<Rightarrow>
                          (case pick_active_sector job2 of
                             None \<Rightarrow>
                               (d1\<lparr>jobs := set_job_status (j_id job2) ''DONE'' js1\<rparr>,
                                AllSectorsComplete, None)
                           | Some active_sector \<Rightarrow>
                               (let expected = current_expected_type_for_sector job2 active_sector;
                                    fallback = str_or expected ''LABELLING''
                                in if media_count = 0 then (d1, PromptFor fallback, None)
                                   else if \<not> truthy_str (MediaUrl0 frm)
                                           \<or> take 6 (str_or (MediaContentType0 frm) []) \<noteq> ''image/''
                                   then (d1, SendValidImage fallback, None)
                                   else (case fetch_media x (the (MediaUrl0 frm)) of
                                           None \<Rightarrow> (d1, CouldNotDownload fallback, None)
                                         | Some data \<Rightarrow>
                                             (let result_hint = upper (str_or expected ''LABELLING'');
                                                  key = new_image_key x (j_id job2) active_sector result_hint
                                              in case put_bytes x key data of
                                                   None \<Rightarrow> (d1, CouldNotSave, None)
                                                 | Some s3_url \<Rightarrow>
                                                     if insert_one_raises x then (d1, CouldNotSave, None)
                                                     else
                                                       (d1\<lparr>photos := photos d1 @
                                                              [placeholder_photo (j_id job2) active_sector
                                                                 result_hint key (Some s3_url)]\<rparr>,
                                                        GotPhoto,
                                                        Some \<lparr>t_worker = from_num, t_job_id = j_id job2,
                                                              t_sector = active_sector, t_hint = result_hint,
                                                              t_data = data\<rparr>))))))))"

text \<open>
  An inbound event fully processed: the handler, then the background task it scheduled
  (if any) with the task's own arguments.
\<close>

definition inbound_event ::
  "ext \<Rightarrow> (bytes \<Rightarrow> 'img option) \<Rightarrow> ('img \<Rightarrow> 'img) \<Rightarrow>
   ('img \<Rightarrow> string option \<Rightarrow> string list \<Rightarrow> verdict option) \<Rightarrow> db \<Rightarrow> request_body \<Rightarrow> db" where
  "inbound_event x load_bgr downscale_for_ocr run_pipeline d body =
     (case whatsapp_webhook x d body of
        (d1, r, None) \<Rightarrow> d1
      | (d1, r, Some t) \<Rightarrow>
          process_and_notify load_bgr downscale_for_ocr run_pipeline d1
            (t_job_id t) (t_sector t) (t_data t))"

section \<open>The direct upload\<close>

datatype upload_response =
    DecodeFailed400
  | PipelineCrashed500
  | SaveFailed500
  | Unhandled500
  | UploadOk nat int string "string option" "string list" jdict

text \<open>The sector block that \<^verbatim>\<open>debug_upload\<close> writes for a sector it does not find.\<close>

definition debug_sector_block :: "int \<Rightarrow> sector_doc" where
  "debug_sector_block sid =
     \<lparr>sector = sid, requiredTypes = [''LABELLING'', ''AZIMUTH''], currentIndex = 0,
      status = ''IN_PROGRESS''\<rparr>"

text \<open>The photo document of whatsapp.py 525-537.\<close>

definition upload_photo :: "nat \<Rightarrow> int \<Rightarrow> string \<Rightarrow> string \<Rightarrow> string option \<Rightarrow> verdict \<Rightarrow> photo" where
  "upload_photo jid sid result_type key s3_url result =
     \<lparr>jobId = jid, p_sector = sid, p_type = result_type, s3Key = key, s3Url = s3_url,
      phash = r_phash result, ocrText = r_ocrText result,
      p_fields = (case r_fields result of None \<Rightarrow> [] | Some f \<Rightarrow> f),
      p_checks = (case r_checks result of None \<Rightarrow> [] | Some c \<Rightarrow> c),
      p_status = r_status result,
      reason = (case r_reason result of None \<Rightarrow> [] | Some r \<Rightarrow> r)\<rparr>"

text \<open>
  \<^verbatim>\<open>debug_upload\<close>, from the job lookup to the response. The first component of the
  pair of results of the find-or-create step is the store, the second the variable
  \<^verbatim>\<open>job\<close>.
\<close>

definition find_or_create_job :: "db \<Rightarrow> string \<Rightarrow> string \<Rightarrow> int \<Rightarrow> db \<times> job option" where
  "find_or_create_job d worker site sid =
     (case find (\<lambda>j. workerPhone j = worker \<and> siteId j = site
                      \<and> (j_status j = ''PENDING'' \<or> j_status j = ''IN_PROGRESS'')) (jobs d) of
        None \<Rightarrow>
          (let job0 = \<lparr>j_id = fresh_id (jobs d), workerPhone = worker, siteId = site,
                       sectors = [debug_sector_block sid], j_status = ''IN_PROGRESS'',
                       createdAt = None, macId = None, rsnId = None, azimuthDeg = None\<rparr>
           in (d\<lparr>jobs := jobs d @ [job0]\<rparr>, Some job0))
      | Some job0 \<Rightarrow>
          (if sector_by_id (sectors job0) sid = None then
             (let js1 = push_sector (j_id job0) (debug_sector_block sid) (jobs d)
              in (d\<lparr>jobs := js1\<rparr>, find (\<lambda>j. j_id j = j_id job0) js1))
           else (d, Some job0)))"

definition debug_upload ::
  "ext \<Rightarrow> (bytes \<Rightarrow> 'img option) \<Rightarrow>
   ('img \<Rightarrow> string option \<Rightarrow> string list \<Rightarrow> verdict option) \<Rightarrow>
   db \<Rightarrow> string \<Rightarrow> string \<Rightarrow> int \<Rightarrow> bytes \<Rightarrow> db \<times> upload_response" where
  "debug_upload x load_bgr run_pipeline d worker site sid data =
     (case find_or_create_job d worker site sid of
        (d1, None) \<Rightarrow> (d1, Unhandled500)
      | (d1, Some job0) \<Rightarrow>
          (let expected = current_expected_type_for_sector job0 sid
           in case load_bgr data of
                None \<Rightarrow> (d1, DecodeFailed400)
              | Some img \<Rightarrow>
                  (let prev = prev_phashes (photos d1) (j_id job0) sid expected
                   in case run_pipeline img expected prev of
                        None \<Rightarrow> (d1, PipelineCrashed500)
                      | Some result \<Rightarrow>
                          (let js1 = promote_fields result (j_id job0) (jobs d1);
                               result_type = effective_type result expected;
                               key = new_image_key x (j_id job0) sid result_type
                           in case put_bytes x key data of
                                None \<Rightarrow> (d1\<lparr>jobs := js1\<rparr>, SaveFailed500)
                              | Some s3_url \<Rightarrow>
                                  if insert_one_raises x then (d1\<lparr>jobs := js1\<rparr>, SaveFailed500)
                                  else
                                    (let ps1 = photos d1 @
                                                 [upload_photo (j_id job0) sid result_type key
                                                    (Some s3_url) result]
                                     in case advance_sector result expected result_type sid job0 js1 of
                                          (js2, None) \<Rightarrow> (\<lparr>jobs = js2, photos = ps1\<rparr>, Unhandled500)
                                        | (js2, Some job2) \<Rightarrow>
                                            (\<lparr>jobs = mark_job_done job2 js2, photos = ps1\<rparr>,
                                             UploadOk (j_id job2) sid result_type (r_status result)
                                               (case r_reason result of None \<Rightarrow> [] | Some r \<Rightarrow> r)
                                               (case r_fields result of None \<Rightarrow> [] | Some f \<Rightarrow> f)))))))"

section \<open>Creating a job or extending it by a sector\<close>

text \<open>\<^verbatim>\<open>str.strip()\<close> on the ASCII whitespace characters.\<close>

definition is_space :: "char \<Rightarrow> bool" where
  "is_space c = (let n = (of_char c :: nat) in (9 \<le> n \<and> n \<le> 13) \<or> (28 \<le> n \<and> n \<le> 32))"

definition strip :: "string \<Rightarrow> string" where
  "strip s = rev (dropWhile is_space (rev (dropWhile is_space s)))"

record CreateJob =
  c_workerPhone :: string
  c_siteId :: string
  c_sector :: int

datatype http_error = HTTP400 | HTTP409 int | HTTP500

text \<open>
  Modelled from the spec: \<^verbatim>\<open>app.utils.sector_by_id\<close>, which jobs.py imports, is not among
  the sources. The spec keys a sector block by its sector number, unique within the job;
  the lookup is the one that whatsapp.py defines under the same name.
\<close>

definition utils_sector_by_id :: "sector_doc list \<Rightarrow> int \<Rightarrow> sector_doc option" where
  "utils_sector_by_id secs sid = sector_by_id secs sid"

text \<open>The sector block of jobs.py 132-137.\<close>

definition sector_block :: "int \<Rightarrow> string list \<Rightarrow> sector_doc" where
  "sector_block sid sector_required =
     \<lparr>sector = sid, requiredTypes = sector_required, currentIndex = 0, status = ''PENDING''\<rparr>"

text \<open>
  \<^verbatim>\<open>create_or_extend_job\<close>. \<open>build_required_types_for_sector\<close> and \<open>normalize_phone\<close>
  belong to \<^verbatim>\<open>app.utils\<close> and are parameters (\<open>norm_phone\<close> for the latter); \<open>now\<close> is the creation time stamp.
  The response is the job document that \<^verbatim>\<open>_job_to_out\<close> renders.
\<close>

definition create_or_extend_job ::
  "(string \<Rightarrow> string) \<Rightarrow> (int \<Rightarrow> string list) \<Rightarrow> string \<Rightarrow> db \<Rightarrow> CreateJob \<Rightarrow>
   db \<times> (http_error + job)" where
  "create_or_extend_job norm_phone build_required_types_for_sector now d payload =
     (let worker = strip (c_workerPhone payload);
          site = strip (c_siteId payload);
          sid = c_sector payload;
          worker_phone = norm_phone worker
      in if worker = [] \<or> site = [] then (d, Inl HTTP400)
         else
           (let base = find (\<lambda>j. workerPhone j = worker_phone \<and> siteId j = site) (jobs d);
                sector_required = build_required_types_for_sector sid;
                block = sector_block sid sector_required
            in case base of
                 None \<Rightarrow>
                   (let doc = \<lparr>j_id = fresh_id (jobs d), workerPhone = worker_phone, siteId = site,
                               sectors = [block], j_status = ''PENDING'', createdAt = Some now,
                               macId = None, rsnId = None, azimuthDeg = None\<rparr>
                    in (d\<lparr>jobs := jobs d @ [doc]\<rparr>, Inr doc))
               | Some b \<Rightarrow>
                   (case utils_sector_by_id (sectors b) sid of
                      Some existing \<Rightarrow> (d, Inl (HTTP409 sid))
                    | None \<Rightarrow>
                        (let js1 = push_sector (j_id b) block (jobs d)
                         in case find (\<lambda>j. j_id j = j_id b) js1 of
                              None \<Rightarrow> (d\<lparr>jobs := js1\<rparr>, Inl HTTP500)
                            | Some updated \<Rightarrow> (d\<lparr>jobs := js1\<rparr>, Inr updated)))))"

section \<open>Reading the store\<close>

text \<open>
  What a reader of the store sees of sector \<open>sid\<close> of the job \<open>jid\<close>
  (\<^verbatim>\<open>find_one({"_id": jid})\<close>, then \<open>sector_by_id\<close>), and of the job's status.
\<close>

definition stored_sector :: "db \<Rightarrow> nat \<Rightarrow> int \<Rightarrow> sector_doc option" where
  "stored_sector d jid sid =
     (case find (\<lambda>j. j_id j = jid) (jobs d) of
        None \<Rightarrow> None
      | Some j \<Rightarrow> sector_by_id (sectors j) sid)"

definition sector_index :: "db \<Rightarrow> nat \<Rightarrow> int \<Rightarrow> int option" where
  "sector_index d jid sid = map_option currentIndex (stored_sector d jid sid)"

definition stored_job_status :: "db \<Rightarrow> nat \<Rightarrow> string option" where
  "stored_job_status d jid = map_option j_status (find (\<lambda>j. j_id j = jid) (jobs d))"

text \<open>
  The photo that \<^verbatim>\<open>find_one({"jobId": jid}, sort=[("_id", -1)])\<close> returns: the last inserted
  photo of the job.
\<close>

definition last_photo :: "db \<Rightarrow> nat \<Rightarrow> photo option" where
  "last_photo d jid = find (\<lambda>p. jobId p = jid) (rev (photos d))"

section \<open>Example documents\<close>

text \<open>The sector lists of the spec's selector examples, used to instantiate the theorems.\<close>

definition demo_sectors :: "sector_doc list" where
  "demo_sectors =
     [\<lparr>sector = 1, requiredTypes = [''LABELLING'', ''AZIMUTH''], currentIndex = 2, status = ''DONE''\<rparr>,
      \<lparr>sector = 2, requiredTypes = [''LABELLING'', ''AZIMUTH'', ''SITE''], currentIndex = 0,
        status = ''PENDING''\<rparr>]"

definition demo_job :: job where
  "demo_job =
     \<lparr>j_id = 1, workerPhone = ''9999'', siteId = ''S1'', sectors = demo_sectors,
      j_status = ''IN_PROGRESS'', createdAt = None, macId = None, rsnId = None, azimuthDeg = None\<rparr>"

definition exhausted_sectors :: "sector_doc list" where
  "exhausted_sectors =
     [\<lparr>sector = 1, requiredTypes = [''LABELLING'', ''AZIMUTH''], currentIndex = 2, status = ''PENDING''\<rparr>,
      \<lparr>sector = 2, requiredTypes = [''LABELLING''], currentIndex = 1, status = ''IN_PROGRESS''\<rparr>]"

text \<open>
  The store of the spec's happy-path scenario: one job of worker 9999 at site S1 with one
  sector that requires LABELLING then AZIMUTH, and the placeholder photo that the handler
  inserted; and verdicts of the pipeline.
\<close>

definition happy_job :: job where
  "happy_job =
     \<lparr>j_id = 1, workerPhone = ''9999'', siteId = ''S1'',
      sectors = [\<lparr>sector = 1, requiredTypes = [''LABELLING'', ''AZIMUTH''], currentIndex = 0,
                  status = ''IN_PROGRESS''\<rparr>],
      j_status = ''IN_PROGRESS'', createdAt = None, macId = None, rsnId = None, azimuthDeg = None\<rparr>"

definition happy_db :: db where
  "happy_db =
     \<lparr>jobs = [happy_job],
      photos = [placeholder_photo 1 1 ''LABELLING'' ''jobs/1/raw/0-k-s1_labelling.jpg'' None]\<rparr>"

definition verdict_of :: "string option \<Rightarrow> string \<Rightarrow> string list \<Rightarrow> verdict" where
  "verdict_of ty st rs =
     \<lparr>r_type = ty, r_status = Some st, r_reason = Some rs, r_phash = Some ''c3a1'',
      r_ocrText = None, r_fields = None, r_checks = None\<rparr>"

text \<open>An orchestrator run on \<open>happy_db\<close> whose pipeline returns the given verdict.\<close>

definition happy_run :: "verdict \<Rightarrow> db" where
  "happy_run v =
     process_and_notify (\<lambda>b. Some b) (\<lambda>i. i) (\<lambda>i e hs. Some v) happy_db 1 1 [255, 216, 255]"

text \<open>
  The store of the spec's completion scenario: the only sector of the only job requires
  LABELLING alone.
\<close>

definition single_job :: job where
  "single_job =
     \<lparr>j_id = 1, workerPhone = ''9999'', siteId = ''S1'',
      sectors = [\<lparr>sector = 1, requiredTypes = [''LABELLING''], currentIndex = 0,
                  status = ''IN_PROGRESS''\<rparr>],
      j_status = ''IN_PROGRESS'', createdAt = None, macId = None, rsnId = None, azimuthDeg = None\<rparr>"

definition single_db :: db where
  "single_db =
     \<lparr>jobs = [single_job],
      photos = [placeholder_photo 1 1 ''LABELLING'' ''jobs/1/raw/0-k-s1_labelling.jpg'' None]\<rparr>"

definition single_run :: "verdict \<Rightarrow> db" where
  "single_run v =
     process_and_notify (\<lambda>b. Some b) (\<lambda>i. i) (\<lambda>i e hs. Some v) single_db 1 1 [255, 216, 255]"

text \<open>
  Photos of two jobs, two sectors and two types, for the scope of the duplicate
  detection.
\<close>

definition photo_of :: "nat \<Rightarrow> int \<Rightarrow> string \<Rightarrow> string \<Rightarrow> string option \<Rightarrow> photo" where
  "photo_of jid sid ty st h =
     \<lparr>jobId = jid, p_sector = sid, p_type = ty, s3Key = ''k'', s3Url = None, phash = h,
      ocrText = None, p_fields = [], p_checks = [], p_status = Some st, reason = []\<rparr>"

definition scope_photos :: "photo list" where
  "scope_photos =
     [photo_of 1 1 ''LABELLING'' ''PASS'' (Some ''aa11''),
      photo_of 1 2 ''LABELLING'' ''PASS'' (Some ''bb22''),
      photo_of 1 1 ''AZIMUTH'' ''FAIL'' (Some ''cc33''),
      photo_of 1 1 ''LABELLING'' ''PROCESSING'' None,
      photo_of 2 1 ''LABELLING'' ''PASS'' (Some ''dd44'')]"

text \<open>
  An inbound message of worker 9999 with one JPEG attached, the collaborators of the
  handler with a working blob store, and a store whose only job has no sector.
\<close>

definition demo_form :: form where
  "demo_form =
     \<lparr>From = Some ''9999'', WaId = None, NumMedia = Some 1,
      MediaUrl0 = Some ''https://media.example/1'', MediaContentType0 = Some ''image/jpeg''\<rparr>"

definition demo_ext :: ext where
  "demo_ext =
     \<lparr>normalize_phone = (\<lambda>s. s), fetch_media = (\<lambda>u. Some [255, 216, 255]),
      new_image_key = (\<lambda>j s t. ''jobs/1/raw/0-k-s1_labelling.jpg''),
      put_bytes = (\<lambda>k b. Some ''s3://bucket/jobs/1/raw/0-k-s1_labelling.jpg''),
      insert_one_raises = False\<rparr>"

definition sectorless_job :: job where
  "sectorless_job =
     \<lparr>j_id = 1, workerPhone = ''9999'', siteId = ''S1'', sectors = [],
      j_status = ''IN_PROGRESS'', createdAt = None, macId = None, rsnId = None, azimuthDeg = None\<rparr>"

definition sectorless_db :: db where
  "sectorless_db = \<lparr>jobs = [sectorless_job], photos = []\<rparr>"




definition seen_db :: db where
  "seen_db =
     \<lparr>jobs = [happy_job],
      photos = scope_photos @
               [placeholder_photo 1 1 ''LABELLING'' ''jobs/1/raw/0-k-s1_labelling.jpg'' None]\<rparr>"

definition echo_pipeline :: "bytes \<Rightarrow> string option \<Rightarrow> string list \<Rightarrow> verdict option" where
  "echo_pipeline img e hs =
     Some \<lparr>r_type = e, r_status = Some ''FAIL'', r_reason = Some hs, r_phash = Some ''ee55'',
            r_ocrText = None, r_fields = None, r_checks = None\<rparr>"

section \<open>Facts about the helpers\<close>

lemma upper_Nil_iff: "(upper s = []) = (s = [])"
  by (simp add: upper_def)

lemma upper_PENDING: "upper ''PENDING'' = ''PENDING''"
  by (simp add: upper_def upper_char_def)

lemma upper_IN_PROGRESS: "upper ''IN_PROGRESS'' = ''IN_PROGRESS''"
  by (simp add: upper_def upper_char_def)

lemma upper_DONE: "upper ''DONE'' = ''DONE''"
  by (simp add: upper_def upper_char_def)

lemma upper_canonical: "canonical_status st \<Longrightarrow> upper st = st"
  unfolding canonical_status_def
  using upper_PENDING upper_IN_PROGRESS upper_DONE by auto

lemma pick_loop_find:
  "pick_active_sector_loop secs =
     map_option sector
       (find (\<lambda>s. upper (status s) \<noteq> ''DONE'' \<and> currentIndex s < int (length (requiredTypes s))) secs)"
  by (induction secs) (simp_all add: Let_def)

lemma find_cong_list_all:
  "list_all (\<lambda>x. P x = Q x) xs \<Longrightarrow> find P xs = find Q xs"
  by (induction xs) simp_all

lemma list_ex_cong_list_all:
  "list_all (\<lambda>x. P x = Q x) xs \<Longrightarrow> list_ex P xs = list_ex Q xs"
  by (induction xs) simp_all

lemma list_all_mono_canonical:
  "list_all (\<lambda>s. canonical_status (status s)) secs \<Longrightarrow>
   list_all (\<lambda>s. (upper (status s) \<noteq> ''DONE'' \<and> currentIndex s < int (length (requiredTypes s)))
                = (status s \<noteq> ''DONE'' \<and> currentIndex s < int (length (requiredTypes s)))) secs"
  by (induction secs) (simp_all add: upper_canonical)

lemma find_None_list_ex: "(find P xs = None) = (\<not> list_ex P xs)"
  by (induction xs) simp_all

lemma all_done_loop_list_all:
  "all_sectors_done_loop secs =
     list_all (\<lambda>s. upper (status s) = ''DONE'' \<or> int (length (requiredTypes s)) \<le> currentIndex s) secs"
  by (induction secs) (auto simp add: Let_def)

section \<open>Facts about the store operations\<close>

lemma find_update_one:
  assumes "\<And>x. Q x \<Longrightarrow> P x" and "\<And>x. Q x \<Longrightarrow> P (f x)"
  shows "find P (update_one Q f xs) = map_option (\<lambda>j. if Q j then f j else j) (find P xs)"
  using assms by (induction xs) auto

lemma find_update_one_same:
  assumes "\<And>x. P x \<Longrightarrow> P (f x)"
  shows "find P (update_one P f xs) = map_option f (find P xs)"
  using assms by (induction xs) auto

lemma find_Some_holds: "find P xs = Some x \<Longrightarrow> P x"
  by (induction xs) (auto split: if_splits)

lemma sector_by_id_update_one:
  assumes "\<And>s. sector (g s) = sector s"
  shows "sector_by_id (update_one (\<lambda>s. sector s = sid) g secs) sid = map_option g (sector_by_id secs sid)"
  using assms by (induction secs) auto

lemma sector_by_id_update_other:
  assumes "\<And>s. sector (g s) = sector s" and "sid' \<noteq> sid"
  shows "sector_by_id (update_one (\<lambda>s. sector s = sid) g secs) sid' = sector_by_id secs sid'"
  using assms by (induction secs) auto

lemma update_one_no_sector:
  "sector_by_id secs sid = None \<Longrightarrow> update_one (\<lambda>s. sector s = sid) g secs = secs"
  by (induction secs) (auto split: if_splits)

lemma list_ex_sector: "list_ex (\<lambda>s. sector s = sid) secs = (sector_by_id secs sid \<noteq> None)"
  by (induction secs) auto

lemma sector_by_id_Some_sector: "sector_by_id secs sid = Some s \<Longrightarrow> sector s = sid"
  by (induction secs) (auto split: if_splits)

lemma find_positional:
  assumes "find (\<lambda>j. j_id j = jid) js = Some j"
  shows "find (\<lambda>j. j_id j = jid)
           (update_one (\<lambda>j. j_id j = jid \<and> list_ex (\<lambda>s. sector s = sid) (sectors j))
              (\<lambda>j. j\<lparr>sectors := update_one (\<lambda>s. sector s = sid) g (sectors j)\<rparr>) js)
         = Some (j\<lparr>sectors := update_one (\<lambda>s. sector s = sid) g (sectors j)\<rparr>)"
proof -
  let ?Q = "\<lambda>j. j_id j = jid \<and> list_ex (\<lambda>s. sector s = sid) (sectors j)"
  let ?f = "\<lambda>j. j\<lparr>sectors := update_one (\<lambda>s. sector s = sid) g (sectors j)\<rparr>"
  have a: "find (\<lambda>j. j_id j = jid) (update_one ?Q ?f js)
            = map_option (\<lambda>j. if ?Q j then ?f j else j) (find (\<lambda>j. j_id j = jid) js)"
    by (rule find_update_one) simp_all
  have b: "?f j = j" if "\<not> ?Q j"
  proof -
    from assms have "j_id j = jid" by (rule find_Some_holds)
    with that have "sector_by_id (sectors j) sid = None" by (simp add: list_ex_sector)
    then show ?thesis by (simp add: update_one_no_sector)
  qed
  show ?thesis
    using a b assms by (cases "?Q j") simp_all
qed

lemma find_inc_currentIndex:
  "find (\<lambda>j. j_id j = jid) js = Some j \<Longrightarrow>
   find (\<lambda>j. j_id j = jid) (inc_currentIndex jid sid js)
     = Some (j\<lparr>sectors := update_one (\<lambda>s. sector s = sid)
                              (\<lambda>s. s\<lparr>currentIndex := currentIndex s + 1\<rparr>) (sectors j)\<rparr>)"
  unfolding inc_currentIndex_def by (rule find_positional)

lemma find_set_sector_done:
  "find (\<lambda>j. j_id j = jid) js = Some j \<Longrightarrow>
   find (\<lambda>j. j_id j = jid) (set_sector_done jid sid js)
     = Some (j\<lparr>sectors := update_one (\<lambda>s. sector s = sid) (\<lambda>s. s\<lparr>status := ''DONE''\<rparr>) (sectors j)\<rparr>)"
  unfolding set_sector_done_def by (rule find_positional)

lemma find_set_job_status:
  "find (\<lambda>j. j_id j = jid) (set_job_status jid st js)
     = map_option (\<lambda>j. j\<lparr>j_status := st\<rparr>) (find (\<lambda>j. j_id j = jid) js)"
  unfolding set_job_status_def by (rule find_update_one_same) simp

lemma find_push_sector:
  "find (\<lambda>j. j_id j = jid) (push_sector jid b js)
     = map_option (\<lambda>j. j\<lparr>sectors := sectors j @ [b]\<rparr>) (find (\<lambda>j. j_id j = jid) js)"
  unfolding push_sector_def by (rule find_update_one_same) simp

lemma set_rollups_keeps:
  "sectors (set_rollups u j) = sectors j" "j_id (set_rollups u j) = j_id j"
  "j_status (set_rollups u j) = j_status j"
  by (simp_all add: set_rollups_def)

lemma find_promote_fields:
  assumes "find (\<lambda>j. j_id j = jid) js = Some j"
  shows "\<exists>j1. find (\<lambda>j. j_id j = jid) (promote_fields result jid js) = Some j1
              \<and> sectors j1 = sectors j \<and> j_status j1 = j_status j \<and> j_id j1 = j_id j"
proof (cases "rollup_updates (case r_fields result of None \<Rightarrow> [] | Some f \<Rightarrow> f) = []")
  case True
  then show ?thesis using assms by (simp add: promote_fields_def)
next
  case False
  have "find (\<lambda>j. j_id j = jid)
          (update_one (\<lambda>j. j_id j = jid)
             (set_rollups (rollup_updates (case r_fields result of None \<Rightarrow> [] | Some f \<Rightarrow> f))) js)
        = map_option (set_rollups (rollup_updates (case r_fields result of None \<Rightarrow> [] | Some f \<Rightarrow> f)))
            (find (\<lambda>j. j_id j = jid) js)"
    by (rule find_update_one_same) (simp add: set_rollups_keeps)
  with False assms show ?thesis
    by (simp add: promote_fields_def set_rollups_keeps)
qed

section \<open>Facts about the advance block and the orchestrator\<close>

lemma sector_by_id_advanced:
  "sector_by_id (advanced_sectors sid secs) sid =
     map_option (\<lambda>s. if int (length (requiredTypes s)) \<le> currentIndex s + 1
                      then s\<lparr>currentIndex := currentIndex s + 1, status := ''DONE''\<rparr>
                      else s\<lparr>currentIndex := currentIndex s + 1\<rparr>)
       (sector_by_id secs sid)"
proof (cases "sector_by_id secs sid")
  case None
  then show ?thesis
    by (simp add: advanced_sectors_def update_one_no_sector)
next
  case (Some s)
  have a: "sector_by_id (update_one (\<lambda>s. sector s = sid)
              (\<lambda>s. s\<lparr>currentIndex := currentIndex s + 1\<rparr>) secs) sid
           = Some (s\<lparr>currentIndex := currentIndex s + 1\<rparr>)"
    using Some by (simp add: sector_by_id_update_one)
  show ?thesis
    using Some a by (simp add: advanced_sectors_def sector_by_id_update_one)
qed

lemma sector_by_id_advanced_other:
  "sid' \<noteq> sid \<Longrightarrow> sector_by_id (advanced_sectors sid secs) sid' = sector_by_id secs sid'"
  by (simp add: advanced_sectors_def sector_by_id_update_other Let_def split: option.splits)

lemma length_update_one: "length (update_one q f xs) = length xs"
  by (induction xs) simp_all

lemma advanced_sectors_Nil_iff: "(advanced_sectors sid secs = []) = (secs = [])"
proof -
  have "length (advanced_sectors sid secs) = length secs"
    by (simp add: advanced_sectors_def Let_def length_update_one split: option.splits)
  then show ?thesis by (metis length_0_conv)
qed

lemma advance_sector_not:
  "\<not> advance_condition result expected \<Longrightarrow>
   advance_sector result expected (effective_type result expected) sid job0 js = (js, Some job0)"
  by (auto simp add: advance_sector_def advance_condition_def Let_def)

lemma advance_sector_yes:
  assumes c: "advance_condition result expected"
    and f: "find (\<lambda>j. j_id j = j_id job0) js = Some job1"
  shows "\<exists>js' job'. advance_sector result expected (effective_type result expected) sid job0 js
                        = (js', Some job')
           \<and> find (\<lambda>j. j_id j = j_id job0) js' = Some job'
           \<and> sectors job' = advanced_sectors sid (sectors job1)
           \<and> j_status job' = j_status job1"
proof -
  let ?inc = "\<lambda>s. s\<lparr>currentIndex := currentIndex s + 1\<rparr>"
  let ?secs1 = "update_one (\<lambda>s. sector s = sid) ?inc (sectors job1)"
  let ?j1 = "job1\<lparr>sectors := ?secs1\<rparr>"
  let ?js1 = "inc_currentIndex (j_id job0) sid js"
  have id1: "j_id job1 = j_id job0" using f by (rule find_Some_holds)
  have f1: "find (\<lambda>j. j_id j = j_id job0) ?js1 = Some ?j1"
    using f by (rule find_inc_currentIndex)
  have c': "upper (str_or (r_status result) []) = ''PASS'' \<and> truthy_str expected
            \<and> Some (effective_type result expected) = expected"
    using c by (simp add: advance_condition_def)
  show ?thesis
  proof (cases "sector_by_id ?secs1 sid")
    case None
    then have "advance_sector result expected (effective_type result expected) sid job0 js
                 = (?js1, Some ?j1)"
      using c' f1 by (simp add: advance_sector_def Let_def)
    moreover have "advanced_sectors sid (sectors job1) = ?secs1"
      using None by (simp add: advanced_sectors_def)
    ultimately show ?thesis using f1 by simp
  next
    case (Some sd)
    show ?thesis
    proof (cases "int (length (requiredTypes sd)) \<le> currentIndex sd")
      case False
      then have "advance_sector result expected (effective_type result expected) sid job0 js
                   = (?js1, Some ?j1)"
        using c' f1 Some by (simp add: advance_sector_def Let_def)
      moreover have "advanced_sectors sid (sectors job1) = ?secs1"
        using Some False by (simp add: advanced_sectors_def)
      ultimately show ?thesis using f1 by simp
    next
      case True
      let ?js2 = "set_sector_done (j_id job0) sid ?js1"
      let ?j2 = "?j1\<lparr>sectors := update_one (\<lambda>s. sector s = sid) (\<lambda>s. s\<lparr>status := ''DONE''\<rparr>) ?secs1\<rparr>"
      have f2: "find (\<lambda>j. j_id j = j_id job0) ?js2 = Some ?j2"
        using find_set_sector_done [OF f1, of sid] by simp
      have "advance_sector result expected (effective_type result expected) sid job0 js
                   = (?js2, Some ?j2)"
        using c' f1 f2 Some True id1 by (simp add: advance_sector_def Let_def)
      moreover have "advanced_sectors sid (sectors job1)
                       = update_one (\<lambda>s. sector s = sid) (\<lambda>s. s\<lparr>status := ''DONE''\<rparr>) ?secs1"
        using Some True by (simp add: advanced_sectors_def)
      ultimately show ?thesis using f2 by simp
    qed
  qed
qed

lemma find_mark_job_done:
  "find (\<lambda>j. j_id j = j_id job2) js = Some j \<Longrightarrow>
   \<exists>J. find (\<lambda>j. j_id j = j_id job2) (mark_job_done job2 js) = Some J
        \<and> sectors J = sectors j
        \<and> j_status J = (if all_sectors_done (sectors job2) then ''DONE'' else j_status j)"
  by (simp add: mark_job_done_def find_set_job_status)

lemma process_and_notify_job:
  assumes f: "find (\<lambda>j. j_id j = jid) (jobs d) = Some job0"
    and l: "load_bgr data = Some img"
    and p: "run_pipeline (downscale img) (current_expected_type_for_sector job0 sid)
              (prev_phashes (photos d) jid sid (current_expected_type_for_sector job0 sid)) = Some result"
  shows "\<exists>J. find (\<lambda>j. j_id j = jid) (jobs (process_and_notify load_bgr downscale run_pipeline d jid sid data))
               = Some J
           \<and> sectors J = (if advance_condition result (current_expected_type_for_sector job0 sid)
                           then advanced_sectors sid (sectors job0) else sectors job0)
           \<and> j_status J = (if all_sectors_done (sectors J) then ''DONE'' else j_status job0)"
proof -
  let ?e = "current_expected_type_for_sector job0 sid"
  let ?js1 = "promote_fields result jid (jobs d)"
  have id0: "j_id job0 = jid" using f by (rule find_Some_holds)
  obtain j1 where j1: "find (\<lambda>j. j_id j = jid) ?js1 = Some j1"
      "sectors j1 = sectors job0" "j_status j1 = j_status job0"
    using find_promote_fields [OF f, of result] by blast
  show ?thesis
  proof (cases "advance_condition result ?e")
    case False
    have a: "advance_sector result ?e (effective_type result ?e) sid job0 ?js1 = (?js1, Some job0)"
      using False by (rule advance_sector_not)
    have "jobs (process_and_notify load_bgr downscale run_pipeline d jid sid data)
            = mark_job_done job0 ?js1"
      using f l p a id0 by (simp add: process_and_notify_def Let_def)
    moreover obtain J where "find (\<lambda>j. j_id j = j_id job0) (mark_job_done job0 ?js1) = Some J"
        "sectors J = sectors j1"
        "j_status J = (if all_sectors_done (sectors job0) then ''DONE'' else j_status j1)"
      using find_mark_job_done [of job0 ?js1 j1] j1(1) id0 by auto
    ultimately show ?thesis using False j1 id0 by simp
  next
    case True
    obtain js' job' where a:
        "advance_sector result ?e (effective_type result ?e) sid job0 ?js1 = (js', Some job')"
        "find (\<lambda>j. j_id j = j_id job0) js' = Some job'"
        "sectors job' = advanced_sectors sid (sectors j1)"
        "j_status job' = j_status j1"
      using advance_sector_yes [OF True, of job0 ?js1 j1 sid] j1(1) id0 by auto
    have id': "j_id job' = j_id job0" using a(2) by (rule find_Some_holds)
    have "jobs (process_and_notify load_bgr downscale run_pipeline d jid sid data)
            = mark_job_done job' js'"
      using f l p a(1) id0 by (simp add: process_and_notify_def Let_def)
    moreover obtain J where "find (\<lambda>j. j_id j = j_id job') (mark_job_done job' js') = Some J"
        "sectors J = sectors job'"
        "j_status J = (if all_sectors_done (sectors job') then ''DONE'' else j_status job')"
      using find_mark_job_done [of job' js' job'] a(2) id' by auto
    ultimately show ?thesis using True j1 a id0 id' by simp
  qed
qed

section \<open>Facts about the advance condition\<close>

lemma upper_LABELLING: "upper ''LABELLING'' = ''LABELLING''"
  by (simp add: upper_def upper_char_def)

lemma upper_PASS: "upper ''PASS'' = ''PASS''"
  by (simp add: upper_def upper_char_def)

lemma upper_FAIL: "upper ''FAIL'' = ''FAIL''"
  by (simp add: upper_def upper_char_def)

lemma upper_AZIMUTH: "upper ''AZIMUTH'' = ''AZIMUTH''"
  by (simp add: upper_def upper_char_def)

lemma str_or_nonempty: "d \<noteq> [] \<Longrightarrow> str_or x d \<noteq> []"
  by (cases x) simp_all

lemma effective_type_nonempty: "effective_type result expected \<noteq> []"
  by (simp add: effective_type_def upper_Nil_iff str_or_nonempty)

lemma advance_condition_iff:
  "advance_condition result expected =
     (upper (str_or (r_status result) []) = ''PASS'' \<and> expected = Some (effective_type result expected))"
proof -
  have "truthy_str expected" if "Some (effective_type result expected) = expected"
    using that effective_type_nonempty [of result expected] by (cases expected) auto
  then show ?thesis
    by (auto simp add: advance_condition_def)
qed

lemma expected_Some_bounds:
  "sector_by_id (sectors j) sid = Some s \<Longrightarrow> current_expected_type_for_sector j sid = Some e \<Longrightarrow>
   0 \<le> currentIndex s \<and> currentIndex s < int (length (requiredTypes s))
   \<and> e = requiredTypes s ! nat (currentIndex s)"
  by (auto simp add: current_expected_type_for_sector_def Let_def split: if_splits)

lemma stored_sector_process:
  assumes f: "find (\<lambda>j. j_id j = jid) (jobs d) = Some job0"
    and l: "load_bgr data = Some img"
    and p: "run_pipeline (downscale img) (current_expected_type_for_sector job0 sid)
              (prev_phashes (photos d) jid sid (current_expected_type_for_sector job0 sid)) = Some result"
  shows "stored_sector (process_and_notify load_bgr downscale run_pipeline d jid sid data) jid sid
         = (if advance_condition result (current_expected_type_for_sector job0 sid)
            then map_option (\<lambda>s. if int (length (requiredTypes s)) \<le> currentIndex s + 1
                      then s\<lparr>currentIndex := currentIndex s + 1, status := ''DONE''\<rparr>
                      else s\<lparr>currentIndex := currentIndex s + 1\<rparr>) (sector_by_id (sectors job0) sid)
            else sector_by_id (sectors job0) sid)"
proof -
  obtain J where J: "find (\<lambda>j. j_id j = jid)
                       (jobs (process_and_notify load_bgr downscale run_pipeline d jid sid data)) = Some J"
     "sectors J = (if advance_condition result (current_expected_type_for_sector job0 sid)
                           then advanced_sectors sid (sectors job0) else sectors job0)"
    using process_and_notify_job [where load_bgr = load_bgr and downscale = downscale
        and run_pipeline = run_pipeline, OF f l p] by blast
  show ?thesis
    using J by (simp add: stored_sector_def sector_by_id_advanced)
qed

section \<open>Facts about the photo written by the orchestrator\<close>

lemma photos_process_and_notify:
  assumes f: "find (\<lambda>j. j_id j = jid) (jobs d) = Some job0"
    and l: "load_bgr data = Some img"
    and p: "run_pipeline (downscale img) (current_expected_type_for_sector job0 sid)
              (prev_phashes (photos d) jid sid (current_expected_type_for_sector job0 sid)) = Some result"
  shows "photos (process_and_notify load_bgr downscale run_pipeline d jid sid data)
         = update_last (\<lambda>p. jobId p = jid)
             (resolve_photo result (effective_type result (current_expected_type_for_sector job0 sid)))
             (photos d)"
proof -
  have id0: "j_id job0 = jid" using f by (rule find_Some_holds)
  show ?thesis
    using f l p id0
    by (simp add: process_and_notify_def Let_def split: prod.splits option.splits)
qed

lemma find_rev_update_last:
  assumes "\<And>x. P x \<Longrightarrow> P (g x)"
  shows "find P (rev (update_last P g xs)) = map_option g (find P (rev xs))"
  using assms by (simp add: update_last_def find_update_one_same)

lemma last_photo_process_and_notify:
  assumes f: "find (\<lambda>j. j_id j = jid) (jobs d) = Some job0"
    and l: "load_bgr data = Some img"
    and p: "run_pipeline (downscale img) (current_expected_type_for_sector job0 sid)
              (prev_phashes (photos d) jid sid (current_expected_type_for_sector job0 sid)) = Some result"
  shows "last_photo (process_and_notify load_bgr downscale run_pipeline d jid sid data) jid
         = map_option (resolve_photo result (effective_type result (current_expected_type_for_sector job0 sid)))
             (last_photo d jid)"
  unfolding last_photo_def
    photos_process_and_notify [where load_bgr = load_bgr and downscale = downscale
        and run_pipeline = run_pipeline, OF f l p]
  by (rule find_rev_update_last) (simp add: resolve_photo_def)

lemma process_and_notify_aborts:
  "find (\<lambda>j. j_id j = jid) (jobs d) = None \<or> load_bgr data = None
   \<or> (\<forall>e hs. run_pipeline (downscale (the (load_bgr data))) e hs = None) \<Longrightarrow>
   process_and_notify load_bgr downscale run_pipeline d jid sid data = d"
  by (auto simp add: process_and_notify_def Let_def split: option.splits)

section \<open>The example stores\<close>

lemma single_find: "find (\<lambda>j. j_id j = 1) (jobs single_db) = Some single_job"
  by (simp add: single_db_def single_job_def)

lemma single_sector:
  "sector_by_id (sectors single_job) 1
     = Some \<lparr>sector = 1, requiredTypes = [''LABELLING''], currentIndex = 0, status = ''IN_PROGRESS''\<rparr>"
  by (simp add: single_job_def)

lemma single_expected: "current_expected_type_for_sector single_job 1 = Some ''LABELLING''"
  by (simp add: current_expected_type_for_sector_def single_job_def)


lemma happy_sector:
  "sector_by_id (sectors happy_job) 1
     = Some \<lparr>sector = 1, requiredTypes = [''LABELLING'', ''AZIMUTH''], currentIndex = 0,
             status = ''IN_PROGRESS''\<rparr>"
  by (simp add: happy_job_def)

lemma happy_expected: "current_expected_type_for_sector happy_job 1 = Some ''LABELLING''"
  by (simp add: current_expected_type_for_sector_def happy_job_def)


lemma pass_labelling_advances:
  "advance_condition (verdict_of (Some ''LABELLING'') ''PASS'' rs) (Some ''LABELLING'')"
  by (simp add: advance_condition_def effective_type_def verdict_of_def upper_PASS upper_LABELLING)

lemma pass_untyped_advances:
  "advance_condition (verdict_of None ''PASS'' rs) (Some ''LABELLING'')"
  by (simp add: advance_condition_def effective_type_def verdict_of_def upper_PASS upper_LABELLING)


section \<open>Facts about the reference hashes\<close>

lemma prev_phashes_Nil: "prev_phashes [] jid sid expected = []"
  by (simp add: prev_phashes_def)

lemma prev_phashes_Cons:
  "prev_phashes (p # ps) jid sid expected =
     (if jobId p = jid \<and> p_sector p = sid \<and> p_type p = upper (str_or expected [])
         \<and> (p_status p = Some ''PASS'' \<or> p_status p = Some ''FAIL'') \<and> truthy_str (phash p)
      then the (phash p) # prev_phashes ps jid sid expected
      else prev_phashes ps jid sid expected)"
  by (simp add: prev_phashes_def)

lemma truthy_str_iff: "truthy_str x = (\<exists>h. x = Some h \<and> h \<noteq> [])"
  by (cases x) simp_all

lemma set_prev_phashes:
  "set (prev_phashes ps jid sid expected)
     = {h. \<exists>p \<in> set ps. jobId p = jid \<and> p_sector p = sid \<and> p_type p = upper (str_or expected [])
            \<and> (p_status p = Some ''PASS'' \<or> p_status p = Some ''FAIL'')
            \<and> phash p = Some h \<and> h \<noteq> []}"
proof (induction ps)
  case Nil
  show ?case by (simp add: prev_phashes_Nil)
next
  case (Cons p ps)
  show ?case
    unfolding prev_phashes_Cons
    using Cons.IH by (auto simp add: truthy_str_iff)
qed

lemma prev_phashes_other_scope:
  "prev_phashes (filter (\<lambda>p. jobId p \<noteq> jid \<or> p_sector p \<noteq> sid
                              \<or> p_type p \<noteq> upper (str_or expected [])) ps) jid sid expected = []"
  by (induction ps) (simp_all add: prev_phashes_Nil prev_phashes_Cons)

lemma prev_phashes_same_scope:
  "prev_phashes (filter (\<lambda>p. jobId p = jid \<and> p_sector p = sid
                              \<and> p_type p = upper (str_or expected [])) ps) jid sid expected
   = prev_phashes ps jid sid expected"
  by (induction ps) (simp_all add: prev_phashes_Nil prev_phashes_Cons)

lemma process_and_notify_pipeline_cong:
  assumes f: "find (\<lambda>j. j_id j = jid) (jobs d) = Some jb"
    and l: "load_bgr data = Some img"
    and e: "run_pipeline (downscale img) (current_expected_type_for_sector jb sid)
              (prev_phashes (photos d) jid sid (current_expected_type_for_sector jb sid))
            = run_pipeline' (downscale img) (current_expected_type_for_sector jb sid)
              (prev_phashes (photos d) jid sid (current_expected_type_for_sector jb sid))"
  shows "process_and_notify load_bgr downscale run_pipeline d jid sid data
         = process_and_notify load_bgr downscale run_pipeline' d jid sid data"
proof -
  have id0: "j_id jb = jid" using f by (rule find_Some_holds)
  show ?thesis
    unfolding process_and_notify_def
    using f l e id0 by (simp add: Let_def)
qed

section \<open>Facts about job creation\<close>

lemma strip_9999: "strip ''9999'' = ''9999''"
  by (simp add: strip_def is_space_def)

lemma strip_S1: "strip '' S1 '' = ''S1''"
  by (simp add: strip_def is_space_def)

lemma distinct_find_by_id:
  "distinct (map j_id js) \<Longrightarrow> find P js = Some b \<Longrightarrow> find (\<lambda>j. j_id j = j_id b) js = Some b"
proof (induction js)
  case Nil
  then show ?case by simp
next
  case (Cons j js)
  show ?case
  proof (cases "P j")
    case True
    with Cons.prems show ?thesis by simp
  next
    case False
    with Cons.prems have fb: "find P js = Some b" by simp
    then have "b \<in> set js" by (induction js) (auto split: if_splits)
    with Cons.prems(1) have "j_id j \<noteq> j_id b" by auto
    moreover have "find (\<lambda>j. j_id j = j_id b) js = Some b"
      using Cons.IH Cons.prems(1) fb by simp
    ultimately show ?thesis by simp
  qed
qed

lemma set_update_one_subset:
  "find q xs = Some b \<Longrightarrow> set (update_one q f xs) \<subseteq> insert (f b) (set xs)"
  by (induction xs) (auto split: if_splits)

section \<open>Facts about the ingestion handler\<close>

lemma webhook_scheduled:
  assumes "snd (snd (whatsapp_webhook x d body)) = Some t"
  shows "\<not> insert_one_raises x
         \<and> fst (snd (whatsapp_webhook x d body)) = GotPhoto
         \<and> (\<exists>url. put_bytes x (new_image_key x (t_job_id t) (t_sector t) (t_hint t)) (t_data t) = Some url
               \<and> photos (fst (whatsapp_webhook x d body))
                   = photos d @ [placeholder_photo (t_job_id t) (t_sector t) (t_hint t)
                                   (new_image_key x (t_job_id t) (t_sector t) (t_hint t)) (Some url)])"
  using assms
  by (auto simp add: whatsapp_webhook_def Let_def
        split: request_body.splits option.splits if_splits)

lemma webhook_storage_failure:
  assumes ok: "snd (whatsapp_webhook (x\<lparr>put_bytes := \<lambda>k b. Some u, insert_one_raises := False\<rparr>) d body)
                 = (GotPhoto, Some t)"
    and fail: "insert_one_raises x
               \<or> put_bytes x (new_image_key x (t_job_id t) (t_sector t) (t_hint t)) (t_data t) = None"
  shows "snd (whatsapp_webhook x d body) = (CouldNotSave, None)
         \<and> photos (fst (whatsapp_webhook x d body)) = photos d"
  using assms
  by (auto simp add: whatsapp_webhook_def Let_def
        split: request_body.splits option.splits if_splits)

lemma happy_pick: "pick_active_sector happy_job = Some 1"
  by (simp add: pick_active_sector_def happy_job_def upper_IN_PROGRESS)

lemma happy_in_flight:
  "find (\<lambda>j. workerPhone j = ''9999'' \<and> (j_status j = ''PENDING'' \<or> j_status j = ''IN_PROGRESS''))
     (jobs happy_db) = Some happy_job"
  by (simp add: happy_db_def happy_job_def)

lemma happy_job_fields: "j_status happy_job = ''IN_PROGRESS''" "j_id happy_job = 1"
  by (simp_all add: happy_job_def)

lemma webhook_happy_ok:
  "whatsapp_webhook demo_ext happy_db (FormBody demo_form)
     = (happy_db\<lparr>photos := photos happy_db @
                    [placeholder_photo 1 1 ''LABELLING'' ''jobs/1/raw/0-k-s1_labelling.jpg''
                       (Some ''s3://bucket/jobs/1/raw/0-k-s1_labelling.jpg'')]\<rparr>,
        GotPhoto,
        Some \<lparr>t_worker = ''9999'', t_job_id = 1, t_sector = 1, t_hint = ''LABELLING'',
              t_data = [255, 216, 255]\<rparr>)"
  by (simp add: whatsapp_webhook_def demo_ext_def demo_form_def Let_def happy_in_flight
        happy_job_fields happy_pick happy_expected upper_LABELLING)

lemma webhook_happy_put_fails:
  "whatsapp_webhook (demo_ext\<lparr>put_bytes := \<lambda>k b. None\<rparr>) happy_db (FormBody demo_form)
     = (happy_db, CouldNotSave, None)"
  by (simp add: whatsapp_webhook_def demo_ext_def demo_form_def Let_def happy_in_flight
        happy_job_fields happy_pick happy_expected upper_LABELLING)

lemma webhook_happy_insert_fails:
  "whatsapp_webhook (demo_ext\<lparr>insert_one_raises := True\<rparr>) happy_db (FormBody demo_form)
     = (happy_db, CouldNotSave, None)"
  by (simp add: whatsapp_webhook_def demo_ext_def demo_form_def Let_def happy_in_flight
        happy_job_fields happy_pick happy_expected upper_LABELLING)

section \<open>Facts about the completion of a job\<close>

lemma webhook_sectorless:
  "whatsapp_webhook demo_ext sectorless_db (FormBody demo_form)
     = (sectorless_db\<lparr>jobs := [sectorless_job\<lparr>j_status := ''DONE''\<rparr>]\<rparr>, AllSectorsComplete, None)"
proof -
  have f: "find (\<lambda>j. workerPhone j = ''9999'' \<and> (j_status j = ''PENDING'' \<or> j_status j = ''IN_PROGRESS''))
             (jobs sectorless_db) = Some sectorless_job"
    by (simp add: sectorless_db_def sectorless_job_def)
  have s: "j_status sectorless_job = ''IN_PROGRESS''" by (simp add: sectorless_job_def)
  have p: "pick_active_sector sectorless_job = None"
    by (simp add: pick_active_sector_def sectorless_job_def)
  have u: "set_job_status (j_id sectorless_job) ''DONE'' (jobs sectorless_db)
             = [sectorless_job\<lparr>j_status := ''DONE''\<rparr>]"
    by (simp add: set_job_status_def sectorless_db_def)
  show ?thesis
    by (simp add: whatsapp_webhook_def demo_ext_def demo_form_def Let_def f s p u)
qed

lemma find_Some_mem: "find P xs = Some x \<Longrightarrow> x \<in> set xs"
  by (induction xs) (auto split: if_splits)

lemma pick_Some_not_all_done:
  assumes "pick_active_sector j = Some a"
  shows "\<not> all_sectors_done (sectors j)"
proof -
  let ?U = "\<lambda>s. upper (status s) \<noteq> ''DONE'' \<and> currentIndex s < int (length (requiredTypes s))"
  from assms obtain s where s: "find ?U (sectors j) = Some s"
    by (auto simp add: pick_active_sector_def pick_loop_find)
  then have "?U s" by (rule find_Some_holds)
  moreover have "s \<in> set (sectors j)" using s by (rule find_Some_mem)
  ultimately have "\<not> list_all (\<lambda>s. upper (status s) = ''DONE''
                        \<or> int (length (requiredTypes s)) \<le> currentIndex s) (sectors j)"
    by (auto simp add: list_all_iff)
  then show ?thesis
    by (simp add: all_sectors_done_def all_done_loop_list_all)
qed

lemma pick_None_all_done:
  assumes "pick_active_sector j = None" and "sectors j \<noteq> []"
  shows "all_sectors_done (sectors j)"
proof -
  let ?U = "\<lambda>s. upper (status s) \<noteq> ''DONE'' \<and> currentIndex s < int (length (requiredTypes s))"
  from assms(1) have "\<not> list_ex ?U (sectors j)"
    by (simp add: pick_active_sector_def pick_loop_find find_None_list_ex)
  then have "list_all (\<lambda>s. upper (status s) = ''DONE''
                        \<or> int (length (requiredTypes s)) \<le> currentIndex s) (sectors j)"
    by (auto simp add: list_all_iff list_ex_iff)
  with assms(2) show ?thesis
    by (simp add: all_sectors_done_def all_done_loop_list_all)
qed

lemma process_and_notify_done_iff:
  assumes f: "find (\<lambda>j. j_id j = jid) (jobs d) = Some j"
    and nd: "j_status j \<noteq> ''DONE''"
    and na: "\<not> all_sectors_done (sectors j)"
  shows "\<exists>J. find (\<lambda>j. j_id j = jid)
                (jobs (process_and_notify load_bgr downscale run_pipeline d jid sid data)) = Some J
           \<and> (j_status J = ''DONE'') = all_sectors_done (sectors J)"
proof (cases "load_bgr data")
  case None
  then have "process_and_notify load_bgr downscale run_pipeline d jid sid data = d"
    by (simp add: process_and_notify_def Let_def split: option.splits)
  with f nd na show ?thesis by simp
next
  case (Some img)
  show ?thesis
  proof (cases "run_pipeline (downscale img) (current_expected_type_for_sector j sid)
                  (prev_phashes (photos d) jid sid (current_expected_type_for_sector j sid))")
    case None
    have id0: "j_id j = jid" using f by (rule find_Some_holds)
    have "process_and_notify load_bgr downscale run_pipeline d jid sid data = d"
      using f Some None id0 by (simp add: process_and_notify_def Let_def)
    with f nd na show ?thesis by simp
  next
    case (Some result)
    from process_and_notify_job [where load_bgr = load_bgr and downscale = downscale
        and run_pipeline = run_pipeline, OF f \<open>load_bgr data = Some img\<close> Some]
    obtain J where J: "find (\<lambda>j. j_id j = jid)
                (jobs (process_and_notify load_bgr downscale run_pipeline d jid sid data)) = Some J"
        "j_status J = (if all_sectors_done (sectors J) then ''DONE'' else j_status j)"
      by blast
    then show ?thesis using nd by auto
  qed
qed

lemma pick_active_sector_cong: "sectors j' = sectors j \<Longrightarrow> pick_active_sector j' = pick_active_sector j"
  by (simp add: pick_active_sector_def)

lemma webhook_job:
  assumes dj: "distinct (map j_id (jobs d))"
    and f: "find (\<lambda>j. workerPhone j = normalize_phone x (str_or (From frm) (str_or (WaId frm) []))
                       \<and> (j_status j = ''PENDING'' \<or> j_status j = ''IN_PROGRESS'')) (jobs d) = Some job0"
  shows "\<exists>J. find (\<lambda>j. j_id j = j_id job0) (jobs (fst (whatsapp_webhook x d (FormBody frm)))) = Some J
           \<and> sectors J = sectors job0
           \<and> (pick_active_sector job0 = None \<longrightarrow>
                j_status J = ''DONE'' \<and> snd (snd (whatsapp_webhook x d (FormBody frm))) = None)
           \<and> (pick_active_sector job0 \<noteq> None \<longrightarrow>
                j_status J = ''IN_PROGRESS''
                \<and> (\<forall>t. snd (snd (whatsapp_webhook x d (FormBody frm))) = Some t \<longrightarrow>
                       t_job_id t = j_id job0))"
proof -
  let ?js1 = "if j_status job0 = ''PENDING''
              then set_job_status (j_id job0) ''IN_PROGRESS'' (jobs d) else jobs d"
  let ?job2 = "job0\<lparr>j_status := ''IN_PROGRESS''\<rparr>"
  have fb: "find (\<lambda>j. j_id j = j_id job0) (jobs d) = Some job0"
    using dj f by (rule distinct_find_by_id)
  have st: "j_status job0 = ''PENDING'' \<or> j_status job0 = ''IN_PROGRESS''"
    using find_Some_holds [OF f] by simp
  have f1: "find (\<lambda>j. j_id j = j_id job0) ?js1 = Some ?job2"
    using fb st by (auto simp add: find_set_job_status)
  have r: "(if j_status job0 = ''PENDING'' then find (\<lambda>j. j_id j = j_id job0) ?js1 else Some job0)
             = Some ?job2"
    using f1 st by auto
  have pk: "pick_active_sector ?job2 = pick_active_sector job0"
    by (rule pick_active_sector_cong) simp
  show ?thesis
  proof (cases "pick_active_sector job0")
    case None
    have "whatsapp_webhook x d (FormBody frm)
            = (d\<lparr>jobs := set_job_status (j_id job0) ''DONE'' ?js1\<rparr>, AllSectorsComplete, None)"
      using f r pk None by (simp add: whatsapp_webhook_def Let_def)
    then show ?thesis
      using None f1 by (simp add: find_set_job_status)
  next
    case (Some a)
    have j: "jobs (fst (whatsapp_webhook x d (FormBody frm))) = ?js1
             \<and> (\<forall>t. snd (snd (whatsapp_webhook x d (FormBody frm))) = Some t \<longrightarrow> t_job_id t = j_id job0)"
      using f r pk Some
      by (simp add: whatsapp_webhook_def Let_def split: option.splits)
    show ?thesis
      using j Some f1 by simp
  qed
qed

text \<open>
  For a job with at least one sector that the handler finds in flight, the job is DONE
  after the inbound event is fully processed exactly when all its sectors are done.
\<close>

lemma inbound_event_done_iff:
  assumes dj: "distinct (map j_id (jobs d))"
    and f: "find (\<lambda>j. workerPhone j = normalize_phone x (str_or (From frm) (str_or (WaId frm) []))
                       \<and> (j_status j = ''PENDING'' \<or> j_status j = ''IN_PROGRESS'')) (jobs d) = Some job0"
    and ne: "sectors job0 \<noteq> []"
  shows "\<exists>J. find (\<lambda>j. j_id j = j_id job0)
                (jobs (inbound_event x load_bgr downscale run_pipeline d (FormBody frm))) = Some J
           \<and> (j_status J = ''DONE'') = all_sectors_done (sectors J)"
proof -
  let ?res = "whatsapp_webhook x d (FormBody frm)"
  from webhook_job [OF dj f]
  obtain J where J0: "find (\<lambda>j. j_id j = j_id job0) (jobs (fst ?res)) = Some J
      \<and> sectors J = sectors job0
      \<and> (pick_active_sector job0 = None \<longrightarrow> j_status J = ''DONE'' \<and> snd (snd ?res) = None)
      \<and> (pick_active_sector job0 \<noteq> None \<longrightarrow>
         j_status J = ''IN_PROGRESS'' \<and> (\<forall>t. snd (snd ?res) = Some t \<longrightarrow> t_job_id t = j_id job0))"
    by (erule exE)
  then have J: "find (\<lambda>j. j_id j = j_id job0) (jobs (fst ?res)) = Some J"
      "sectors J = sectors job0"
      "pick_active_sector job0 = None \<longrightarrow> j_status J = ''DONE'' \<and> snd (snd ?res) = None"
      "pick_active_sector job0 \<noteq> None \<longrightarrow>
         j_status J = ''IN_PROGRESS'' \<and> (\<forall>t. snd (snd ?res) = Some t \<longrightarrow> t_job_id t = j_id job0)"
    by simp_all
  obtain d1 r t where res: "?res = (d1, r, t)" by (cases ?res) auto
  show ?thesis
  proof (cases "pick_active_sector job0")
    case None
    then have "all_sectors_done (sectors J)"
      using pick_None_all_done [of job0] ne J(2) by simp
    moreover have "inbound_event x load_bgr downscale run_pipeline d (FormBody frm) = fst ?res"
      using J(3) None res by (simp add: inbound_event_def)
    ultimately show ?thesis using J(1,3) None by simp
  next
    case (Some a)
    then have na: "\<not> all_sectors_done (sectors J)"
      using pick_Some_not_all_done [of job0 a] J(2) by simp
    have ip: "j_status J = ''IN_PROGRESS''" using J(4) Some by simp
    show ?thesis
    proof (cases t)
      case None
      then have "inbound_event x load_bgr downscale run_pipeline d (FormBody frm) = fst ?res"
        using res by (simp add: inbound_event_def)
      then show ?thesis using J(1) na ip by simp
    next
      case (Some tk)
      have tj: "t_job_id tk = j_id job0" using J(4) \<open>pick_active_sector job0 = Some a\<close> res Some by simp
      have "inbound_event x load_bgr downscale run_pipeline d (FormBody frm)
              = process_and_notify load_bgr downscale run_pipeline d1 (j_id job0) (t_sector tk) (t_data tk)"
        using res Some tj by (simp add: inbound_event_def)
      moreover have "find (\<lambda>j. j_id j = j_id job0) (jobs d1) = Some J"
        using J(1) res by simp
      ultimately show ?thesis
        using process_and_notify_done_iff [where d = d1 and jid = "j_id job0" and j = J
            and load_bgr = load_bgr and downscale = downscale and run_pipeline = run_pipeline
            and sid = "t_sector tk" and data = "t_data tk"] na ip
        by simp
    qed
  qed
qed

section \<open>Facts about the direct upload\<close>

lemma new_blocks_not_done:
  "status (sector_block sid req) \<noteq> ''DONE''" "status (debug_sector_block sid) \<noteq> ''DONE''"
  by (simp_all add: sector_block_def debug_sector_block_def)

lemma fold_max_ge_init: "(a::nat) \<le> fold max xs a"
proof (induction xs arbitrary: a)
  case Nil
  show ?case by simp
next
  case (Cons x xs)
  have "max x a \<le> fold max xs (max x a)" by (rule Cons.IH)
  then show ?case by simp
qed

lemma fold_max_ge_elem: "x \<in> set xs \<Longrightarrow> (x::nat) \<le> fold max xs a"
proof (induction xs arbitrary: a)
  case Nil
  then show ?case by simp
next
  case (Cons y ys)
  show ?case
  proof (cases "x = y")
    case True
    have "max y a \<le> fold max ys (max y a)" by (rule fold_max_ge_init)
    with True show ?thesis by simp
  next
    case False
    with Cons.prems have "x \<in> set ys" by simp
    then have "x \<le> fold max ys (max y a)" by (rule Cons.IH)
    then show ?thesis by simp
  qed
qed

lemma fresh_id_fresh: "fresh_id js \<notin> set (map j_id js)"
proof
  assume "fresh_id js \<in> set (map j_id js)"
  then have "fresh_id js \<le> fold max (map j_id js) 0" by (rule fold_max_ge_elem)
  then show False by (simp add: fresh_id_def)
qed

lemma find_append_fresh:
  "j_id j \<notin> set (map j_id js) \<Longrightarrow> find (\<lambda>k. j_id k = j_id j) (js @ [j]) = Some j"
  by (induction js) auto

lemma map_j_id_update_one:
  "(\<And>j. j_id (f j) = j_id j) \<Longrightarrow> map j_id (update_one q f js) = map j_id js"
  by (induction js) auto

lemma sector_by_id_append_block: "sector_by_id (xs @ [b]) (sector b) \<noteq> None"
  by (induction xs) simp_all

lemma find_or_create_job_consistent:
  assumes dj: "distinct (map j_id (jobs d))"
    and fc: "find_or_create_job d worker site sid = (d1, Some jb)"
  shows "find (\<lambda>j. j_id j = j_id jb) (jobs d1) = Some jb
         \<and> sector_by_id (sectors jb) sid \<noteq> None
         \<and> distinct (map j_id (jobs d1))
         \<and> photos d1 = photos d"
proof (cases "find (\<lambda>j. workerPhone j = worker \<and> siteId j = site
                      \<and> (j_status j = ''PENDING'' \<or> j_status j = ''IN_PROGRESS'')) (jobs d)")
  case None
  let ?j = "\<lparr>j_id = fresh_id (jobs d), workerPhone = worker, siteId = site,
             sectors = [debug_sector_block sid], j_status = ''IN_PROGRESS'',
             createdAt = None, macId = None, rsnId = None, azimuthDeg = None\<rparr>"
  from None fc have e: "d1 = d\<lparr>jobs := jobs d @ [?j]\<rparr>" "jb = ?j"
    by (auto simp add: find_or_create_job_def Let_def)
  have fr: "j_id ?j \<notin> set (map j_id (jobs d))"
    using fresh_id_fresh [of "jobs d"] by simp
  have "find (\<lambda>k. j_id k = j_id ?j) (jobs d @ [?j]) = Some ?j"
    using fr by (rule find_append_fresh)
  moreover have "distinct (map j_id (jobs d @ [?j]))"
    using dj fr by simp
  ultimately show ?thesis
    using e by (simp add: debug_sector_block_def)
next
  case (Some j0)
  note fj = Some
  have fb: "find (\<lambda>j. j_id j = j_id j0) (jobs d) = Some j0"
    using dj Some by (rule distinct_find_by_id)
  show ?thesis
  proof (cases "sector_by_id (sectors j0) sid")
    case (Some s)
    with fj fc have "d1 = d" "jb = j0"
      by (auto simp add: find_or_create_job_def Let_def)
    with fb dj Some show ?thesis by simp
  next
    case None
    let ?js = "push_sector (j_id j0) (debug_sector_block sid) (jobs d)"
    have fu: "find (\<lambda>j. j_id j = j_id j0) ?js = Some (j0\<lparr>sectors := sectors j0 @ [debug_sector_block sid]\<rparr>)"
      by (simp add: find_push_sector fb)
    from None fj fc fu
    have e: "d1 = d\<lparr>jobs := ?js\<rparr>" "jb = j0\<lparr>sectors := sectors j0 @ [debug_sector_block sid]\<rparr>"
      by (auto simp add: find_or_create_job_def Let_def)
    have m: "map j_id ?js = map j_id (jobs d)"
      unfolding push_sector_def by (rule map_j_id_update_one) simp
    have sb: "sector_by_id (sectors j0 @ [debug_sector_block sid]) sid \<noteq> None"
      using sector_by_id_append_block [of "sectors j0" "debug_sector_block sid"]
      by (simp add: debug_sector_block_def)
    show ?thesis
      using e fu m dj sb by simp
  qed
qed

lemma debug_upload_job:
  assumes fc: "find_or_create_job d worker site sid = (d1, Some jb)"
    and c: "find (\<lambda>j. j_id j = j_id jb) (jobs d1) = Some jb"
    and l: "load_bgr data = Some img"
    and p: "run_pipeline img (current_expected_type_for_sector jb sid)
              (prev_phashes (photos d1) (j_id jb) sid (current_expected_type_for_sector jb sid)) = Some result"
    and pb: "put_bytes x (new_image_key x (j_id jb) sid
                            (effective_type result (current_expected_type_for_sector jb sid))) data = Some url"
    and ni: "\<not> insert_one_raises x"
  shows "\<exists>J. find (\<lambda>j. j_id j = j_id jb)
                (jobs (fst (debug_upload x load_bgr run_pipeline d worker site sid data))) = Some J
           \<and> sectors J = (if advance_condition result (current_expected_type_for_sector jb sid)
                           then advanced_sectors sid (sectors jb) else sectors jb)
           \<and> j_status J = (if all_sectors_done (sectors J) then ''DONE'' else j_status jb)
           \<and> photos (fst (debug_upload x load_bgr run_pipeline d worker site sid data))
               = photos d1 @ [upload_photo (j_id jb) sid
                                (effective_type result (current_expected_type_for_sector jb sid))
                                (new_image_key x (j_id jb) sid
                                   (effective_type result (current_expected_type_for_sector jb sid)))
                                (Some url) result]"
proof -
  let ?e = "current_expected_type_for_sector jb sid"
  let ?js1 = "promote_fields result (j_id jb) (jobs d1)"
  let ?ph = "upload_photo (j_id jb) sid (effective_type result ?e)
               (new_image_key x (j_id jb) sid (effective_type result ?e)) (Some url) result"
  obtain j1 where j1: "find (\<lambda>j. j_id j = j_id jb) ?js1 = Some j1"
      "sectors j1 = sectors jb" "j_status j1 = j_status jb"
    using find_promote_fields [OF c, of result] by blast
  show ?thesis
  proof (cases "advance_condition result ?e")
    case False
    have a: "advance_sector result ?e (effective_type result ?e) sid jb ?js1 = (?js1, Some jb)"
      using False by (rule advance_sector_not)
    have r: "fst (debug_upload x load_bgr run_pipeline d worker site sid data)
            = \<lparr>jobs = mark_job_done jb ?js1, photos = photos d1 @ [?ph]\<rparr>"
      using fc l p pb ni a by (simp add: debug_upload_def Let_def)
    obtain J where "find (\<lambda>j. j_id j = j_id jb) (mark_job_done jb ?js1) = Some J"
        "sectors J = sectors j1"
        "j_status J = (if all_sectors_done (sectors jb) then ''DONE'' else j_status j1)"
      using find_mark_job_done [of jb ?js1 j1] j1(1) by auto
    then show ?thesis using False j1 r by simp
  next
    case True
    obtain js' job' where a:
        "advance_sector result ?e (effective_type result ?e) sid jb ?js1 = (js', Some job')"
        "find (\<lambda>j. j_id j = j_id jb) js' = Some job'"
        "sectors job' = advanced_sectors sid (sectors j1)"
        "j_status job' = j_status j1"
      using advance_sector_yes [OF True, of jb ?js1 j1 sid] j1(1) by auto
    have id': "j_id job' = j_id jb" using a(2) by (rule find_Some_holds)
    have r: "fst (debug_upload x load_bgr run_pipeline d worker site sid data)
            = \<lparr>jobs = mark_job_done job' js', photos = photos d1 @ [?ph]\<rparr>"
      using fc l p pb ni a(1) by (simp add: debug_upload_def Let_def)
    obtain J where "find (\<lambda>j. j_id j = j_id job') (mark_job_done job' js') = Some J"
        "sectors J = sectors job'"
        "j_status J = (if all_sectors_done (sectors job') then ''DONE'' else j_status job')"
      using find_mark_job_done [of job' js' job'] a(2) id' by auto
    then show ?thesis using True j1 a id' r by simp
  qed
qed

text \<open>
  The direct upload leaves the requested sector as an orchestrator run does: advanced by
  one, and marked DONE when exhausted, exactly under the advance condition.
\<close>

lemma debug_upload_sector:
  assumes dj: "distinct (map j_id (jobs d))"
    and fc: "find_or_create_job d worker site sid = (d1, Some jb)"
    and l: "load_bgr data = Some img"
    and p: "run_pipeline img (current_expected_type_for_sector jb sid)
              (prev_phashes (photos d1) (j_id jb) sid (current_expected_type_for_sector jb sid)) = Some result"
    and pb: "put_bytes x (new_image_key x (j_id jb) sid
                            (effective_type result (current_expected_type_for_sector jb sid))) data = Some url"
    and ni: "\<not> insert_one_raises x"
  shows "stored_sector (fst (debug_upload x load_bgr run_pipeline d worker site sid data)) (j_id jb) sid
         = (if advance_condition result (current_expected_type_for_sector jb sid)
            then map_option (\<lambda>s. if int (length (requiredTypes s)) \<le> currentIndex s + 1
                      then s\<lparr>currentIndex := currentIndex s + 1, status := ''DONE''\<rparr>
                      else s\<lparr>currentIndex := currentIndex s + 1\<rparr>) (sector_by_id (sectors jb) sid)
            else sector_by_id (sectors jb) sid)"
proof -
  have c: "find (\<lambda>j. j_id j = j_id jb) (jobs d1) = Some jb"
    using find_or_create_job_consistent [OF dj fc] by simp
  obtain J where J: "find (\<lambda>j. j_id j = j_id jb)
                (jobs (fst (debug_upload x load_bgr run_pipeline d worker site sid data))) = Some J"
      "sectors J = (if advance_condition result (current_expected_type_for_sector jb sid)
                           then advanced_sectors sid (sectors jb) else sectors jb)"
    using debug_upload_job [where load_bgr = load_bgr and run_pipeline = run_pipeline,
        OF fc c l p pb ni] by blast
  show ?thesis
    using J by (simp add: stored_sector_def sector_by_id_advanced)
qed

section \<open>Facts about a verdict without a detected type\<close>




text \<open>
  The photo that the direct upload appends and the index it leaves, in the terms of the
  orchestrator's advance.
\<close>

lemma debug_upload_effect:
  assumes dj: "distinct (map j_id (jobs d))"
    and fc: "find_or_create_job d worker site sid = (dn, Some jb)"
    and l: "load_bgr data = Some img"
    and p: "run_pipeline img (current_expected_type_for_sector jb sid)
              (prev_phashes (photos dn) (j_id jb) sid (current_expected_type_for_sector jb sid)) = Some result"
    and pb: "put_bytes x (new_image_key x (j_id jb) sid
                            (effective_type result (current_expected_type_for_sector jb sid))) data = Some url"
    and ni: "\<not> insert_one_raises x"
  shows "photos (fst (debug_upload x load_bgr run_pipeline d worker site sid data))
           = photos dn @ [upload_photo (j_id jb) sid
                            (effective_type result (current_expected_type_for_sector jb sid))
                            (new_image_key x (j_id jb) sid
                               (effective_type result (current_expected_type_for_sector jb sid)))
                            (Some url) result]"
    and "sector_index (fst (debug_upload x load_bgr run_pipeline d worker site sid data)) (j_id jb) sid
           = map_option (\<lambda>i. if advance_condition result (current_expected_type_for_sector jb sid)
                              then i + 1 else i)
               (map_option currentIndex (sector_by_id (sectors jb) sid))"
proof -
  have c: "find (\<lambda>j. j_id j = j_id jb) (jobs dn) = Some jb"
    using find_or_create_job_consistent [OF dj fc] by simp
  show "photos (fst (debug_upload x load_bgr run_pipeline d worker site sid data))
           = photos dn @ [upload_photo (j_id jb) sid
                            (effective_type result (current_expected_type_for_sector jb sid))
                            (new_image_key x (j_id jb) sid
                               (effective_type result (current_expected_type_for_sector jb sid)))
                            (Some url) result]"
    using debug_upload_job [where load_bgr = load_bgr and run_pipeline = run_pipeline,
        OF fc c l p pb ni] by blast
  have "stored_sector (fst (debug_upload x load_bgr run_pipeline d worker site sid data)) (j_id jb) sid
         = (if advance_condition result (current_expected_type_for_sector jb sid)
            then map_option (\<lambda>s. if int (length (requiredTypes s)) \<le> currentIndex s + 1
                      then s\<lparr>currentIndex := currentIndex s + 1, status := ''DONE''\<rparr>
                      else s\<lparr>currentIndex := currentIndex s + 1\<rparr>) (sector_by_id (sectors jb) sid)
            else sector_by_id (sectors jb) sid)"
    using dj fc l p pb ni
    by (rule debug_upload_sector [where load_bgr = load_bgr and run_pipeline = run_pipeline])
  then show "sector_index (fst (debug_upload x load_bgr run_pipeline d worker site sid data)) (j_id jb) sid
           = map_option (\<lambda>i. if advance_condition result (current_expected_type_for_sector jb sid)
                              then i + 1 else i)
               (map_option currentIndex (sector_by_id (sectors jb) sid))"
    by (cases "sector_by_id (sectors jb) sid") (simp_all add: sector_index_def)
qed

section \<open>Facts about the stored status and reasons\<close>

lemma set_update_one_cases:
  "y \<in> set (update_one q f xs) \<Longrightarrow> y \<in> set xs \<or> y \<in> f ` set xs"
  by (induction xs) (auto split: if_splits)

lemma set_update_last_cases:
  assumes "y \<in> set (update_last q f xs)"
  shows "y \<in> set xs \<or> y \<in> f ` set xs"
proof -
  from assms have "y \<in> set (update_one q f (rev xs))"
    by (simp add: update_last_def)
  then have "y \<in> set (rev xs) \<or> y \<in> f ` set (rev xs)"
    by (rule set_update_one_cases)
  then show ?thesis by simp
qed





section \<open>Facts about the call of the pipeline\<close>

lemma debug_upload_crash:
  assumes fc: "find_or_create_job d worker site sid = (dn, Some jb)"
    and l: "load_bgr data = Some img"
    and p: "run_pipeline img (current_expected_type_for_sector jb sid)
              (prev_phashes (photos dn) (j_id jb) sid (current_expected_type_for_sector jb sid)) = None"
  shows "debug_upload x load_bgr run_pipeline d worker site sid data = (dn, PipelineCrashed500)"
  using fc l p by (simp add: debug_upload_def Let_def)

lemma process_and_notify_crash:
  assumes f: "find (\<lambda>j. j_id j = jid) (jobs d) = Some jb"
    and l: "load_bgr data = Some img"
    and p: "run_pipeline (downscale img) (current_expected_type_for_sector jb sid)
              (prev_phashes (photos d) jid sid (current_expected_type_for_sector jb sid)) = None"
  shows "process_and_notify load_bgr downscale run_pipeline d jid sid data = d"
proof -
  have id0: "j_id jb = jid" using f by (rule find_Some_holds)
  show ?thesis
    using f l p id0 by (simp add: process_and_notify_def Let_def)
qed

lemma set_prev_phashes_nonnull:
  assumes "list_all (\<lambda>p. phash p \<noteq> Some []) ps"
  shows "set (prev_phashes ps jid sid expected)
     = {h. \<exists>p \<in> set ps. jobId p = jid \<and> p_sector p = sid \<and> p_type p = upper (str_or expected [])
            \<and> (p_status p = Some ''PASS'' \<or> p_status p = Some ''FAIL'')
            \<and> phash p = Some h}"
proof -
  have "(phash p = Some h \<and> h \<noteq> []) = (phash p = Some h)" if "p \<in> set ps" for p h
    using assms that by (auto simp add: list_all_iff)
  then show ?thesis
    unfolding set_prev_phashes by blast
qed

lemma orchestrator_uses_reference_hashes:
  assumes fl: "find (\<lambda>j. j_id j = jid) (jobs d) = Some jb \<and> load_bgr data = Some img"
  shows "(run_pipeline (downscale img) (current_expected_type_for_sector jb sid)
              (prev_phashes (photos d) jid sid (current_expected_type_for_sector jb sid)) = None \<longrightarrow>
            process_and_notify load_bgr downscale run_pipeline d jid sid data = d)
         \<and> (run_pipeline (downscale img) (current_expected_type_for_sector jb sid)
              (prev_phashes (photos d) jid sid (current_expected_type_for_sector jb sid)) = Some result \<longrightarrow>
            photos (process_and_notify load_bgr downscale run_pipeline d jid sid data)
              = update_last (\<lambda>p. jobId p = jid)
                  (resolve_photo result (effective_type result (current_expected_type_for_sector jb sid)))
                  (photos d)
            \<and> last_photo (process_and_notify load_bgr downscale run_pipeline d jid sid data) jid
                = map_option
                    (resolve_photo result (effective_type result (current_expected_type_for_sector jb sid)))
                    (last_photo d jid)
            \<and> stored_sector (process_and_notify load_bgr downscale run_pipeline d jid sid data) jid sid
                = (if advance_condition result (current_expected_type_for_sector jb sid)
                   then map_option (\<lambda>s. if int (length (requiredTypes s)) \<le> currentIndex s + 1
                             then s\<lparr>currentIndex := currentIndex s + 1, status := ''DONE''\<rparr>
                             else s\<lparr>currentIndex := currentIndex s + 1\<rparr>) (sector_by_id (sectors jb) sid)
                   else sector_by_id (sectors jb) sid))
         \<and> (run_pipeline (downscale img) (current_expected_type_for_sector jb sid)
              (prev_phashes (photos d) jid sid (current_expected_type_for_sector jb sid))
            = run_pipeline' (downscale img) (current_expected_type_for_sector jb sid)
              (prev_phashes (photos d) jid sid (current_expected_type_for_sector jb sid)) \<longrightarrow>
            process_and_notify load_bgr downscale run_pipeline d jid sid data
            = process_and_notify load_bgr downscale run_pipeline' d jid sid data)"
proof -
  from fl have f: "find (\<lambda>j. j_id j = jid) (jobs d) = Some jb" and l: "load_bgr data = Some img"
    by simp_all
  let ?E = "current_expected_type_for_sector jb sid"
  let ?L = "prev_phashes (photos d) jid sid ?E"
  let ?d' = "process_and_notify load_bgr downscale run_pipeline d jid sid data"
  have a: "run_pipeline (downscale img) ?E ?L = None \<longrightarrow> ?d' = d"
  proof
    assume p: "run_pipeline (downscale img) ?E ?L = None"
    show "?d' = d" using f l p by (rule process_and_notify_crash)
  qed
  have b: "run_pipeline (downscale img) ?E ?L = Some result \<longrightarrow>
            photos ?d' = update_last (\<lambda>p. jobId p = jid) (resolve_photo result (effective_type result ?E))
                  (photos d)
            \<and> last_photo ?d' jid
                = map_option (resolve_photo result (effective_type result ?E)) (last_photo d jid)
            \<and> stored_sector ?d' jid sid
                = (if advance_condition result ?E
                   then map_option (\<lambda>s. if int (length (requiredTypes s)) \<le> currentIndex s + 1
                             then s\<lparr>currentIndex := currentIndex s + 1, status := ''DONE''\<rparr>
                             else s\<lparr>currentIndex := currentIndex s + 1\<rparr>) (sector_by_id (sectors jb) sid)
                   else sector_by_id (sectors jb) sid)"
  proof
    assume p: "run_pipeline (downscale img) ?E ?L = Some result"
    have b1: "photos ?d' = update_last (\<lambda>p. jobId p = jid)
                 (resolve_photo result (effective_type result ?E)) (photos d)"
      using f l p by (rule photos_process_and_notify)
    have b2: "last_photo ?d' jid
                = map_option (resolve_photo result (effective_type result ?E)) (last_photo d jid)"
      using f l p by (rule last_photo_process_and_notify)
    have b3: "stored_sector ?d' jid sid
                = (if advance_condition result ?E
                   then map_option (\<lambda>s. if int (length (requiredTypes s)) \<le> currentIndex s + 1
                             then s\<lparr>currentIndex := currentIndex s + 1, status := ''DONE''\<rparr>
                             else s\<lparr>currentIndex := currentIndex s + 1\<rparr>) (sector_by_id (sectors jb) sid)
                   else sector_by_id (sectors jb) sid)"
      using f l p by (rule stored_sector_process)
    show "photos ?d' = update_last (\<lambda>p. jobId p = jid) (resolve_photo result (effective_type result ?E))
                  (photos d)
            \<and> last_photo ?d' jid
                = map_option (resolve_photo result (effective_type result ?E)) (last_photo d jid)
            \<and> stored_sector ?d' jid sid
                = (if advance_condition result ?E
                   then map_option (\<lambda>s. if int (length (requiredTypes s)) \<le> currentIndex s + 1
                             then s\<lparr>currentIndex := currentIndex s + 1, status := ''DONE''\<rparr>
                             else s\<lparr>currentIndex := currentIndex s + 1\<rparr>) (sector_by_id (sectors jb) sid)
                   else sector_by_id (sectors jb) sid)"
      by (rule conjI [OF b1 conjI [OF b2 b3]])
  qed
  have c: "run_pipeline (downscale img) ?E ?L = run_pipeline' (downscale img) ?E ?L \<longrightarrow>
            ?d' = process_and_notify load_bgr downscale run_pipeline' d jid sid data"
  proof
    assume e: "run_pipeline (downscale img) ?E ?L = run_pipeline' (downscale img) ?E ?L"
    show "?d' = process_and_notify load_bgr downscale run_pipeline' d jid sid data"
      using f l e by (rule process_and_notify_pipeline_cong)
  qed
  show ?thesis by (rule conjI [OF a conjI [OF b c]])
qed

lemma upload_uses_reference_hashes:
  assumes h: "distinct (map j_id (jobs du))
              \<and> find_or_create_job du worker site sid = (dn, Some jc)
              \<and> load_bgr data = Some imgu"
  shows "photos dn = photos du
         \<and> (runu imgu (current_expected_type_for_sector jc sid)
               (prev_phashes (photos du) (j_id jc) sid (current_expected_type_for_sector jc sid)) = None \<longrightarrow>
            debug_upload x load_bgr runu du worker site sid data = (dn, PipelineCrashed500))
         \<and> (runu imgu (current_expected_type_for_sector jc sid)
               (prev_phashes (photos du) (j_id jc) sid (current_expected_type_for_sector jc sid))
               = Some resultu
            \<and> put_bytes x (new_image_key x (j_id jc) sid
                              (effective_type resultu (current_expected_type_for_sector jc sid))) data
                = Some url
            \<and> \<not> insert_one_raises x \<longrightarrow>
            photos (fst (debug_upload x load_bgr runu du worker site sid data))
              = photos du @ [upload_photo (j_id jc) sid
                               (effective_type resultu (current_expected_type_for_sector jc sid))
                               (new_image_key x (j_id jc) sid
                                  (effective_type resultu (current_expected_type_for_sector jc sid)))
                               (Some url) resultu])"
proof -
  from h have dj: "distinct (map j_id (jobs du))"
    and fc: "find_or_create_job du worker site sid = (dn, Some jc)"
    and l: "load_bgr data = Some imgu"
    by simp_all
  let ?E = "current_expected_type_for_sector jc sid"
  have ph: "photos dn = photos du"
    using find_or_create_job_consistent [OF dj fc] by simp
  have a: "runu imgu ?E (prev_phashes (photos du) (j_id jc) sid ?E) = None \<longrightarrow>
            debug_upload x load_bgr runu du worker site sid data = (dn, PipelineCrashed500)"
  proof
    assume "runu imgu ?E (prev_phashes (photos du) (j_id jc) sid ?E) = None"
    then have p: "runu imgu ?E (prev_phashes (photos dn) (j_id jc) sid ?E) = None"
      by (simp only: ph)
    show "debug_upload x load_bgr runu du worker site sid data = (dn, PipelineCrashed500)"
      using fc l p by (rule debug_upload_crash)
  qed
  have b: "runu imgu ?E (prev_phashes (photos du) (j_id jc) sid ?E) = Some resultu
            \<and> put_bytes x (new_image_key x (j_id jc) sid (effective_type resultu ?E)) data = Some url
            \<and> \<not> insert_one_raises x \<longrightarrow>
            photos (fst (debug_upload x load_bgr runu du worker site sid data))
              = photos du @ [upload_photo (j_id jc) sid (effective_type resultu ?E)
                               (new_image_key x (j_id jc) sid (effective_type resultu ?E))
                               (Some url) resultu]"
  proof
    assume g: "runu imgu ?E (prev_phashes (photos du) (j_id jc) sid ?E) = Some resultu
            \<and> put_bytes x (new_image_key x (j_id jc) sid (effective_type resultu ?E)) data = Some url
            \<and> \<not> insert_one_raises x"
    then have p: "runu imgu ?E (prev_phashes (photos dn) (j_id jc) sid ?E) = Some resultu"
      by (simp only: ph)
    from g have pb: "put_bytes x (new_image_key x (j_id jc) sid (effective_type resultu ?E)) data = Some url"
      and ni: "\<not> insert_one_raises x" by simp_all
    have "photos (fst (debug_upload x load_bgr runu du worker site sid data))
              = photos dn @ [upload_photo (j_id jc) sid (effective_type resultu ?E)
                               (new_image_key x (j_id jc) sid (effective_type resultu ?E))
                               (Some url) resultu]"
      using dj fc l p pb ni
      by (rule debug_upload_effect(1) [where load_bgr = load_bgr and run_pipeline = runu])
    then show "photos (fst (debug_upload x load_bgr runu du worker site sid data))
              = photos du @ [upload_photo (j_id jc) sid (effective_type resultu ?E)
                               (new_image_key x (j_id jc) sid (effective_type resultu ?E))
                               (Some url) resultu]"
      by (simp only: ph)
  qed
  show ?thesis by (rule conjI [OF ph conjI [OF a b]])
qed

text \<open>
  The store holds the empty string as a hash only if a verdict carried it: the placeholder
  of the ingestion handler has a null hash, and the orchestrator and the direct upload
  store the hash of the verdict.
\<close>

lemma process_and_notify_keeps_hashes:
  assumes f: "find (\<lambda>j. j_id j = jid) (jobs d) = Some jb"
    and l: "load_bgr data = Some img"
    and p: "run_pipeline (downscale img) (current_expected_type_for_sector jb sid)
              (prev_phashes (photos d) jid sid (current_expected_type_for_sector jb sid)) = Some result"
    and nh: "r_phash result \<noteq> Some []"
    and inv: "list_all (\<lambda>q. phash q \<noteq> Some []) (photos d)"
  shows "list_all (\<lambda>q. phash q \<noteq> Some [])
           (photos (process_and_notify load_bgr downscale run_pipeline d jid sid data))"
proof -
  let ?t = "effective_type result (current_expected_type_for_sector jb sid)"
  have e: "photos (process_and_notify load_bgr downscale run_pipeline d jid sid data)
             = update_last (\<lambda>p. jobId p = jid) (resolve_photo result ?t) (photos d)"
    using f l p by (rule photos_process_and_notify)
  have "phash y \<noteq> Some []"
    if y: "y \<in> set (update_last (\<lambda>p. jobId p = jid) (resolve_photo result ?t) (photos d))" for y
  proof -
    from y have "y \<in> set (photos d) \<or> y \<in> resolve_photo result ?t ` set (photos d)"
      by (rule set_update_last_cases)
    then show ?thesis
    proof
      assume "y \<in> set (photos d)"
      with inv show ?thesis by (simp add: list_all_iff)
    next
      assume "y \<in> resolve_photo result ?t ` set (photos d)"
      then obtain z where "y = resolve_photo result ?t z" by blast
      then show ?thesis using nh by (simp add: resolve_photo_def)
    qed
  qed
  then show ?thesis by (simp add: e list_all_iff)
qed

lemma debug_upload_keeps_hashes:
  assumes dj: "distinct (map j_id (jobs d))"
    and fc: "find_or_create_job d worker site sid = (dn, Some jb)"
    and l: "load_bgr data = Some img"
    and p: "run_pipeline img (current_expected_type_for_sector jb sid)
              (prev_phashes (photos dn) (j_id jb) sid (current_expected_type_for_sector jb sid)) = Some result"
    and pb: "put_bytes x (new_image_key x (j_id jb) sid
                            (effective_type result (current_expected_type_for_sector jb sid))) data = Some url"
    and ni: "\<not> insert_one_raises x"
    and nh: "r_phash result \<noteq> Some []"
    and inv: "list_all (\<lambda>q. phash q \<noteq> Some []) (photos d)"
  shows "list_all (\<lambda>q. phash q \<noteq> Some [])
           (photos (fst (debug_upload x load_bgr run_pipeline d worker site sid data)))"
proof -
  have e: "photos dn = photos d"
    using find_or_create_job_consistent [OF dj fc] by simp
  have "photos (fst (debug_upload x load_bgr run_pipeline d worker site sid data))
           = photos dn @ [upload_photo (j_id jb) sid
                            (effective_type result (current_expected_type_for_sector jb sid))
                            (new_image_key x (j_id jb) sid
                               (effective_type result (current_expected_type_for_sector jb sid)))
                            (Some url) result]"
    using dj fc l p pb ni
    by (rule debug_upload_effect(1) [where load_bgr = load_bgr and run_pipeline = run_pipeline])
  then show ?thesis
    using inv nh by (simp add: e upload_photo_def)
qed

lemma placeholder_photo_hash: "phash (placeholder_photo jid sid hint key url) = None"
  by (simp add: placeholder_photo_def)

lemma webhook_keeps_hashes:
  assumes inv: "list_all (\<lambda>q. phash q \<noteq> Some []) (photos d)"
  shows "list_all (\<lambda>q. phash q \<noteq> Some []) (photos (fst (whatsapp_webhook x d body)))"
  using inv
  by (auto simp add: whatsapp_webhook_def Let_def placeholder_photo_def
        split: request_body.splits option.splits if_splits)

section \<open>More example stores\<close>








lemma happy_job_id: "j_id happy_job = 1"
  by (simp add: happy_job_def)


lemma demo_ext_put:
  "put_bytes demo_ext (new_image_key demo_ext jid sid ty) data
     = Some ''s3://bucket/jobs/1/raw/0-k-s1_labelling.jpg''"
  "\<not> insert_one_raises demo_ext"
  by (simp_all add: demo_ext_def)

lemma seen_find: "find (\<lambda>j. j_id j = 1) (jobs seen_db) = Some happy_job"
  by (simp add: seen_db_def happy_job_def)

lemma seen_prev_phashes:
  "prev_phashes (photos seen_db) 1 1 (Some ''LABELLING'') = [''aa11'']"
  by (simp add: seen_db_def scope_photos_def photo_of_def placeholder_photo_def
      prev_phashes_Cons prev_phashes_Nil upper_LABELLING)

lemma seen_last_photo:
  "last_photo seen_db 1 = Some (placeholder_photo 1 1 ''LABELLING'' ''jobs/1/raw/0-k-s1_labelling.jpg'' None)"
  by (simp add: last_photo_def seen_db_def placeholder_photo_def)

lemma seen_distinct: "distinct (map j_id (jobs seen_db))"
  by (simp add: seen_db_def)

lemma seen_find_or_create: "find_or_create_job seen_db ''9999'' ''S1'' 1 = (seen_db, Some happy_job)"
proof -
  have "find (\<lambda>j. workerPhone j = ''9999'' \<and> siteId j = ''S1''
                 \<and> (j_status j = ''PENDING'' \<or> j_status j = ''IN_PROGRESS'')) (jobs seen_db)
          = Some happy_job"
    by (simp add: seen_db_def happy_job_def)
  then show ?thesis
    by (simp add: find_or_create_job_def happy_sector)
qed

lemma seen_nonnull: "list_all (\<lambda>p. phash p \<noteq> Some []) (photos seen_db)"
  by (simp add: seen_db_def scope_photos_def photo_of_def placeholder_photo_def)

lemma seen_echo:
  "echo_pipeline [255, 216, 255] (Some ''LABELLING'')
     (prev_phashes (photos seen_db) 1 1 (Some ''LABELLING''))
   = Some \<lparr>r_type = Some ''LABELLING'', r_status = Some ''FAIL'', r_reason = Some [''aa11''],
            r_phash = Some ''ee55'', r_ocrText = None, r_fields = None, r_checks = None\<rparr>"
  by (simp only: echo_pipeline_def seen_prev_phashes)

section \<open>The Active-Sector Selector\<close>

text \<open>
  C4. The selector returns the sector number of the first sector, in stored order, whose
  status is not DONE and whose currentIndex is strictly below the length of its
  requiredTypes, and returns none exactly when the list has no such sector. The source
  upper-cases the stored status before the comparison (first and second conjunct); on
  sector lists that hold the three status tokens of the schema the comparison is the
  literal one (third and fourth conjunct). The selector is a function of the sector list
  alone: it reads no store and returns no state.
\<close>

theorem pick_active_sector_first_open:
  "pick_active_sector j =
     map_option sector
       (find (\<lambda>s. upper (status s) \<noteq> ''DONE'' \<and> currentIndex s < int (length (requiredTypes s)))
          (sectors j))
   \<and> ((pick_active_sector j = None) =
        (\<not> list_ex (\<lambda>s. upper (status s) \<noteq> ''DONE'' \<and> currentIndex s < int (length (requiredTypes s)))
             (sectors j)))
   \<and> (list_all (\<lambda>s. canonical_status (status s)) (sectors j) \<longrightarrow>
        pick_active_sector j =
          map_option sector
            (find (\<lambda>s. status s \<noteq> ''DONE'' \<and> currentIndex s < int (length (requiredTypes s)))
               (sectors j))
        \<and> ((pick_active_sector j = None) =
             (\<not> list_ex (\<lambda>s. status s \<noteq> ''DONE'' \<and> currentIndex s < int (length (requiredTypes s)))
                  (sectors j))))"
proof (intro conjI impI)
  show a: "pick_active_sector j = map_option sector
       (find (\<lambda>s. upper (status s) \<noteq> ''DONE'' \<and> currentIndex s < int (length (requiredTypes s)))
          (sectors j))"
    by (simp only: pick_active_sector_def pick_loop_find)
  show b: "(pick_active_sector j = None) =
        (\<not> list_ex (\<lambda>s. upper (status s) \<noteq> ''DONE'' \<and> currentIndex s < int (length (requiredTypes s)))
             (sectors j))"
    by (simp only: a option.map_disc_iff find_None_list_ex)
next
  assume c: "list_all (\<lambda>s. canonical_status (status s)) (sectors j)"
  have e: "list_all (\<lambda>s. (upper (status s) \<noteq> ''DONE'' \<and> currentIndex s < int (length (requiredTypes s)))
                = (status s \<noteq> ''DONE'' \<and> currentIndex s < int (length (requiredTypes s)))) (sectors j)"
    by (rule list_all_mono_canonical [OF c])
  show f: "pick_active_sector j = map_option sector
            (find (\<lambda>s. status s \<noteq> ''DONE'' \<and> currentIndex s < int (length (requiredTypes s)))
               (sectors j))"
    by (simp only: pick_active_sector_def pick_loop_find find_cong_list_all [OF e])
  show "(pick_active_sector j = None) =
             (\<not> list_ex (\<lambda>s. status s \<noteq> ''DONE'' \<and> currentIndex s < int (length (requiredTypes s)))
                  (sectors j))"
    by (simp only: f option.map_disc_iff find_None_list_ex)
qed

theorem pick_active_sector_first_open_witness:
  "list_all (\<lambda>s. canonical_status (status s)) (sectors demo_job)
   \<and> pick_active_sector demo_job = Some 2
   \<and> map_option sector
        (find (\<lambda>s. status s \<noteq> ''DONE'' \<and> currentIndex s < int (length (requiredTypes s)))
           (sectors demo_job)) = Some 2"
  using pick_active_sector_first_open [of demo_job]
  by (simp add: demo_job_def demo_sectors_def canonical_status_def upper_PENDING upper_DONE)

section \<open>The all-sectors-done predicate\<close>

text \<open>
  C5. The all-sectors-done predicate holds if and only if the sector list is non-empty and
  every sector has status DONE or currentIndex at least the length of its requiredTypes
  (first conjunct, with the status upper-cased as the source reads it; second conjunct,
  literally, on sector lists that hold the schema's status tokens). If every sector of a
  non-empty list has currentIndex equal to the length of its requiredTypes the predicate
  is true whatever the stored status fields are (third conjunct), and it is false on the
  empty list (fourth conjunct), which is also how the source reads a missing list.
\<close>

theorem all_sectors_done_iff:
  "all_sectors_done secs =
     (secs \<noteq> [] \<and>
      list_all (\<lambda>s. upper (status s) = ''DONE'' \<or> int (length (requiredTypes s)) \<le> currentIndex s) secs)
   \<and> (list_all (\<lambda>s. canonical_status (status s)) secs \<longrightarrow>
        all_sectors_done secs =
          (secs \<noteq> [] \<and>
           list_all (\<lambda>s. status s = ''DONE'' \<or> int (length (requiredTypes s)) \<le> currentIndex s) secs))
   \<and> (secs \<noteq> [] \<and> list_all (\<lambda>s. currentIndex s = int (length (requiredTypes s))) secs \<longrightarrow>
        all_sectors_done secs)
   \<and> \<not> all_sectors_done []"
proof (intro conjI impI)
  show a: "all_sectors_done secs =
     (secs \<noteq> [] \<and>
      list_all (\<lambda>s. upper (status s) = ''DONE'' \<or> int (length (requiredTypes s)) \<le> currentIndex s) secs)"
    by (simp add: all_sectors_done_def all_done_loop_list_all)
  show "\<not> all_sectors_done []"
    by (simp add: all_sectors_done_def)
next
  assume c: "list_all (\<lambda>s. canonical_status (status s)) secs"
  have "list_all (\<lambda>s. upper (status s) = ''DONE'' \<or> int (length (requiredTypes s)) \<le> currentIndex s) secs
      = list_all (\<lambda>s. status s = ''DONE'' \<or> int (length (requiredTypes s)) \<le> currentIndex s) secs"
    using c by (induction secs) (simp_all add: upper_canonical)
  then show "all_sectors_done secs =
          (secs \<noteq> [] \<and>
           list_all (\<lambda>s. status s = ''DONE'' \<or> int (length (requiredTypes s)) \<le> currentIndex s) secs)"
    by (simp add: all_sectors_done_def all_done_loop_list_all)
next
  assume d: "secs \<noteq> [] \<and> list_all (\<lambda>s. currentIndex s = int (length (requiredTypes s))) secs"
  have "list_all (\<lambda>s. currentIndex s = int (length (requiredTypes s))) xs \<Longrightarrow>
        list_all (\<lambda>s. upper (status s) = ''DONE'' \<or> int (length (requiredTypes s)) \<le> currentIndex s) xs"
    for xs by (induction xs) simp_all
  from this [of secs] d
  have "list_all (\<lambda>s. upper (status s) = ''DONE'' \<or> int (length (requiredTypes s)) \<le> currentIndex s) secs"
    by blast
  with d show "all_sectors_done secs"
    by (simp add: all_sectors_done_def all_done_loop_list_all)
qed

theorem all_sectors_done_iff_witness:
  "list_all (\<lambda>s. canonical_status (status s)) exhausted_sectors
   \<and> exhausted_sectors \<noteq> []
   \<and> list_all (\<lambda>s. currentIndex s = int (length (requiredTypes s))) exhausted_sectors
   \<and> list_all (\<lambda>s. status s \<noteq> ''DONE'') exhausted_sectors
   \<and> all_sectors_done exhausted_sectors"
  using all_sectors_done_iff [of exhausted_sectors]
  by (simp add: exhausted_sectors_def canonical_status_def upper_PENDING upper_IN_PROGRESS)

section \<open>The advance of the sector cursor\<close>

text \<open>
  C1, as amended. For an orchestrator run on a stored job, a target sector of that job and
  a verdict of the pipeline: the currentIndex of the sector afterwards is the one before
  plus one if the verdict's status, upper-cased, is PASS and the expected type of the
  sector is known and equals the effective detected type, which is the verdict's type, or
  the expected type when the verdict has no type or an empty one, upper-cased; otherwise
  it is the one before. It never decreases, and if it was at most the length of
  requiredTypes before, it is so afterwards. The direct upload runs the same advance
  block, with the same effect on the requested sector (\<open>debug_upload_sector\<close>).
\<close>

theorem orchestrator_advance_iff:
  assumes f: "find (\<lambda>j. j_id j = jid) (jobs d) = Some job0"
    and s: "sector_by_id (sectors job0) sid = Some s"
    and l: "load_bgr data = Some img"
    and p: "run_pipeline (downscale img) (current_expected_type_for_sector job0 sid)
              (prev_phashes (photos d) jid sid (current_expected_type_for_sector job0 sid)) = Some result"
  shows "sector_index (process_and_notify load_bgr downscale run_pipeline d jid sid data) jid sid
           = Some (if upper (str_or (r_status result) []) = ''PASS''
                      \<and> current_expected_type_for_sector job0 sid
                          = Some (effective_type result (current_expected_type_for_sector job0 sid))
                   then currentIndex s + 1 else currentIndex s)
         \<and> (\<forall>i. sector_index (process_and_notify load_bgr downscale run_pipeline d jid sid data) jid sid
                   = Some i \<longrightarrow>
                 currentIndex s \<le> i
                 \<and> (currentIndex s \<le> int (length (requiredTypes s)) \<longrightarrow>
                      i \<le> int (length (requiredTypes s))))"
proof -
  let ?e = "current_expected_type_for_sector job0 sid"
  let ?d' = "process_and_notify load_bgr downscale run_pipeline d jid sid data"
  have a: "sector_index ?d' jid sid
             = Some (if advance_condition result ?e then currentIndex s + 1 else currentIndex s)"
    using stored_sector_process [where load_bgr = load_bgr and downscale = downscale
        and run_pipeline = run_pipeline, OF f l p] s by (simp add: sector_index_def)
  have b: "currentIndex s + 1 \<le> int (length (requiredTypes s))" if "advance_condition result ?e"
  proof -
    from that have "?e = Some (effective_type result ?e)" by (simp add: advance_condition_iff)
    from expected_Some_bounds [OF s this] show ?thesis by simp
  qed
  show ?thesis
    using a b by (auto simp add: advance_condition_iff)
qed

theorem orchestrator_advance_iff_witness:
  "find (\<lambda>j. j_id j = 1) (jobs happy_db) = Some happy_job
   \<and> sector_by_id (sectors happy_job) 1
       = Some \<lparr>sector = 1, requiredTypes = [''LABELLING'', ''AZIMUTH''], currentIndex = 0,
               status = ''IN_PROGRESS''\<rparr>
   \<and> sector_index (happy_run (verdict_of (Some ''LABELLING'') ''PASS'' [])) 1 1 = Some 1
   \<and> sector_index (happy_run (verdict_of (Some ''LABELLING'') ''FAIL'' [''blurry''])) 1 1 = Some 0
   \<and> sector_index (happy_run (verdict_of (Some ''AZIMUTH'') ''PASS'' [])) 1 1 = Some 0"
proof -
  have f: "find (\<lambda>j. j_id j = 1) (jobs happy_db) = Some happy_job"
    by (simp add: happy_db_def happy_job_def)
  have s: "sector_by_id (sectors happy_job) 1
       = Some \<lparr>sector = 1, requiredTypes = [''LABELLING'', ''AZIMUTH''], currentIndex = 0,
               status = ''IN_PROGRESS''\<rparr>"
    by (simp add: happy_job_def)
  have e: "current_expected_type_for_sector happy_job 1 = Some ''LABELLING''"
    by (simp add: current_expected_type_for_sector_def happy_job_def)
  have t: "effective_type (verdict_of (Some ''LABELLING'') st rs) (Some ''LABELLING'') = ''LABELLING''"
       "effective_type (verdict_of (Some ''AZIMUTH'') st rs) (Some ''LABELLING'') = ''AZIMUTH''"
    for st rs
    by (simp_all add: effective_type_def verdict_of_def upper_LABELLING upper_AZIMUTH)
  have w: "sector_index (happy_run v) 1 1
             = Some (if upper (str_or (r_status v) []) = ''PASS''
                        \<and> Some ''LABELLING'' = Some (effective_type v (Some ''LABELLING''))
                     then 1 else 0)" for v
    using orchestrator_advance_iff [where load_bgr = "\<lambda>b. Some b" and downscale = "\<lambda>i. i"
        and run_pipeline = "\<lambda>i e hs. Some v" and d = happy_db and jid = 1 and sid = 1
        and data = "[255, 216, 255]" and img = "[255, 216, 255]" and result = v, OF f s]
    by (simp add: e happy_run_def)
  show ?thesis
    using f s w [of "verdict_of (Some ''LABELLING'') ''PASS'' []"]
      w [of "verdict_of (Some ''LABELLING'') ''FAIL'' [''blurry'']"]
      w [of "verdict_of (Some ''AZIMUTH'') ''PASS'' []"]
    by (simp add: t) (simp add: verdict_of_def upper_PASS upper_FAIL)
qed

text \<open>
  C1 as stated asks for the verdict's detected type to equal the expected type. A PASS
  verdict that carries no detected type advances the sector all the same: the source
  defaults the type to the expected one before it compares.
\<close>

theorem advance_without_detected_type:
  "sector_index happy_db 1 1 = Some 0
   \<and> sector_index (happy_run (verdict_of None ''PASS'' [])) 1 1 = Some 1
   \<and> r_type (verdict_of None ''PASS'' []) \<noteq> current_expected_type_for_sector happy_job 1"
proof -
  have f: "find (\<lambda>j. j_id j = 1) (jobs happy_db) = Some happy_job"
    by (simp add: happy_db_def happy_job_def)
  have e: "current_expected_type_for_sector happy_job 1 = Some ''LABELLING''"
    by (simp add: current_expected_type_for_sector_def happy_job_def)
  have a: "sector_index happy_db 1 1 = Some 0"
    by (simp add: sector_index_def stored_sector_def happy_db_def happy_job_def)
  have c: "advance_condition (verdict_of None ''PASS'' []) (Some ''LABELLING'')"
    by (simp add: advance_condition_def effective_type_def verdict_of_def upper_PASS upper_LABELLING)
  note ss = stored_sector_process [where load_bgr = "\<lambda>b. Some b" and downscale = "\<lambda>i. i"
        and run_pipeline = "\<lambda>i e hs. Some (verdict_of None ''PASS'' [])" and d = happy_db
        and jid = 1 and sid = 1 and data = "[255, 216, 255]" and img = "[255, 216, 255]"
        and result = "verdict_of None ''PASS'' []", OF f, folded happy_run_def]
  have b: "sector_index (happy_run (verdict_of None ''PASS'' [])) 1 1 = Some 1"
  proof -
    have "stored_sector (happy_run (verdict_of None ''PASS'' [])) 1 1
            = Some \<lparr>sector = 1, requiredTypes = [''LABELLING'', ''AZIMUTH''], currentIndex = 1,
                    status = ''IN_PROGRESS''\<rparr>"
    proof -
      have "stored_sector (happy_run (verdict_of None ''PASS'' [])) 1 1
              = map_option (\<lambda>s. if int (length (requiredTypes s)) \<le> currentIndex s + 1
                      then s\<lparr>currentIndex := currentIndex s + 1, status := ''DONE''\<rparr>
                      else s\<lparr>currentIndex := currentIndex s + 1\<rparr>)
                  (sector_by_id (sectors happy_job) 1)"
        using ss c by (simp add: e)
      then show ?thesis by (simp add: happy_job_def)
    qed
    then show ?thesis by (simp add: sector_index_def)
  qed
  show ?thesis
    using a b e by (simp add: verdict_of_def)
qed

section \<open>A sector is DONE exactly when it is exhausted\<close>

text \<open>
  C3. Sector blocks are created with a status other than DONE, and the advance block is
  the only writer of a sector's status, so a stored sector that is DONE has its
  currentIndex at or beyond the length of its requiredTypes; this is the hypothesis on the
  sector before the run, and the run keeps it (fourth conjunct). After an orchestrator
  run that advances the sector, the only kind of run that writes to it, the sector's
  status is DONE if and only if its currentIndex equals the length of its requiredTypes
  (second conjunct); a run on a sector for which the equivalence held before leaves it
  holding (third conjunct). The status becomes DONE only in a run that advanced the
  cursor by one onto the length of requiredTypes (fifth conjunct). New sector blocks are
  not DONE (\<open>new_blocks_not_done\<close>).
\<close>

theorem sector_done_iff_exhausted:
  assumes f: "find (\<lambda>j. j_id j = jid) (jobs d) = Some job0"
    and s: "sector_by_id (sectors job0) sid = Some s"
    and l: "load_bgr data = Some img"
    and p: "run_pipeline (downscale img) (current_expected_type_for_sector job0 sid)
              (prev_phashes (photos d) jid sid (current_expected_type_for_sector job0 sid)) = Some result"
    and inv: "status s = ''DONE'' \<longrightarrow> int (length (requiredTypes s)) \<le> currentIndex s"
  shows "\<exists>s'. stored_sector (process_and_notify load_bgr downscale run_pipeline d jid sid data) jid sid
                 = Some s'
           \<and> requiredTypes s' = requiredTypes s
           \<and> (advance_condition result (current_expected_type_for_sector job0 sid) \<longrightarrow>
                (status s' = ''DONE'') = (currentIndex s' = int (length (requiredTypes s'))))
           \<and> ((status s = ''DONE'') = (currentIndex s = int (length (requiredTypes s))) \<longrightarrow>
                (status s' = ''DONE'') = (currentIndex s' = int (length (requiredTypes s'))))
           \<and> (status s' = ''DONE'' \<longrightarrow> int (length (requiredTypes s')) \<le> currentIndex s')
           \<and> (status s' = ''DONE'' \<and> status s \<noteq> ''DONE'' \<longrightarrow>
                advance_condition result (current_expected_type_for_sector job0 sid)
                \<and> currentIndex s' = currentIndex s + 1
                \<and> currentIndex s' = int (length (requiredTypes s')))"
proof (cases "advance_condition result (current_expected_type_for_sector job0 sid)")
  case False
  have "stored_sector (process_and_notify load_bgr downscale run_pipeline d jid sid data) jid sid = Some s"
    using stored_sector_process [where load_bgr = load_bgr and downscale = downscale
        and run_pipeline = run_pipeline, OF f l p] s False by simp
  then show ?thesis using False inv by simp
next
  case True
  let ?e = "current_expected_type_for_sector job0 sid"
  from True have "?e = Some (effective_type result ?e)" by (simp add: advance_condition_iff)
  from expected_Some_bounds [OF s this]
  have b: "0 \<le> currentIndex s" "currentIndex s < int (length (requiredTypes s))" by simp_all
  with inv have nd: "status s \<noteq> ''DONE''" by auto
  show ?thesis
  proof (cases "int (length (requiredTypes s)) \<le> currentIndex s + 1")
    case full: True
    have st: "stored_sector (process_and_notify load_bgr downscale run_pipeline d jid sid data) jid sid
                = Some (s\<lparr>currentIndex := currentIndex s + 1, status := ''DONE''\<rparr>)"
      using stored_sector_process [where load_bgr = load_bgr and downscale = downscale
          and run_pipeline = run_pipeline, OF f l p] s True full by simp
    have eq: "currentIndex s + 1 = int (length (requiredTypes s))"
      using b full by simp
    show ?thesis
      using st True eq by simp
  next
    case notfull: False
    have st: "stored_sector (process_and_notify load_bgr downscale run_pipeline d jid sid data) jid sid
                = Some (s\<lparr>currentIndex := currentIndex s + 1\<rparr>)"
      using stored_sector_process [where load_bgr = load_bgr and downscale = downscale
          and run_pipeline = run_pipeline, OF f l p] s True notfull by simp
    have ne: "currentIndex s + 1 \<noteq> int (length (requiredTypes s))"
      using notfull by simp
    show ?thesis
      using st True ne nd by simp
  qed
qed


theorem sector_done_iff_exhausted_witness:
  "find (\<lambda>j. j_id j = 1) (jobs single_db) = Some single_job
   \<and> sector_by_id (sectors single_job) 1
       = Some \<lparr>sector = 1, requiredTypes = [''LABELLING''], currentIndex = 0, status = ''IN_PROGRESS''\<rparr>
   \<and> advance_condition (verdict_of (Some ''LABELLING'') ''PASS'' [])
        (current_expected_type_for_sector single_job 1)
   \<and> (\<exists>s'. stored_sector (single_run (verdict_of (Some ''LABELLING'') ''PASS'' [])) 1 1 = Some s'
            \<and> requiredTypes s' = [''LABELLING'']
            \<and> (status s' = ''DONE'') = (currentIndex s' = 1)
            \<and> status s' = ''DONE'')"
proof -
  note ss = stored_sector_process [where load_bgr = "\<lambda>b. Some b" and downscale = "\<lambda>i. i"
      and run_pipeline = "\<lambda>i e hs. Some (verdict_of (Some ''LABELLING'') ''PASS'' [])"
      and d = single_db and jid = 1 and sid = 1 and data = "[255, 216, 255]"
      and img = "[255, 216, 255]" and result = "verdict_of (Some ''LABELLING'') ''PASS'' []",
      OF single_find, folded single_run_def]
  have st: "stored_sector (single_run (verdict_of (Some ''LABELLING'') ''PASS'' [])) 1 1
              = Some \<lparr>sector = 1, requiredTypes = [''LABELLING''], currentIndex = 1, status = ''DONE''\<rparr>"
    using ss pass_labelling_advances [of "[]"] by (simp add: single_expected single_sector)
  note th = sector_done_iff_exhausted [where load_bgr = "\<lambda>b. Some b" and downscale = "\<lambda>i. i"
      and run_pipeline = "\<lambda>i e hs. Some (verdict_of (Some ''LABELLING'') ''PASS'' [])"
      and d = single_db and jid = 1 and sid = 1 and data = "[255, 216, 255]"
      and img = "[255, 216, 255]" and result = "verdict_of (Some ''LABELLING'') ''PASS'' []",
      OF single_find single_sector, folded single_run_def]
  show ?thesis
    using th st single_find single_sector pass_labelling_advances [of "[]"]
    by (simp add: single_expected)
qed

section \<open>Adding a sector to a job\<close>

text \<open>
  C7. A job-creation request with a non-empty worker phone and site whose (workerPhone,
  siteId) pair already has a job: if that job contains a sector with the requested number,
  the request is rejected with the error 409 and the whole store, the job and its sector
  list included, is left as it was (first conjunct); if the number is new, the stored
  job becomes the job with exactly one sector block appended, whose currentIndex is 0, and
  that job is the response; no job is added or removed, every other job and every photo
  stays as it was (second conjunct, for a store whose job identifiers are distinct, as the
  document store guarantees).
\<close>

theorem create_or_extend_job_sector:
  assumes w: "strip (c_workerPhone payload) \<noteq> []"
    and st: "strip (c_siteId payload) \<noteq> []"
    and b: "find (\<lambda>j. workerPhone j = norm_phone (strip (c_workerPhone payload))
                       \<and> siteId j = strip (c_siteId payload)) (jobs d) = Some b"
  shows "(sector_by_id (sectors b) (c_sector payload) \<noteq> None \<longrightarrow>
            create_or_extend_job norm_phone build_required_types_for_sector now d payload
              = (d, Inl (HTTP409 (c_sector payload))))
         \<and> (sector_by_id (sectors b) (c_sector payload) = None \<and> distinct (map j_id (jobs d)) \<longrightarrow>
              (\<exists>d'. create_or_extend_job norm_phone build_required_types_for_sector now d payload
                       = (d', Inr (b\<lparr>sectors := sectors b @
                                     [\<lparr>sector = c_sector payload,
                                       requiredTypes = build_required_types_for_sector (c_sector payload),
                                       currentIndex = 0, status = ''PENDING''\<rparr>]\<rparr>))
                  \<and> photos d' = photos d
                  \<and> length (jobs d') = length (jobs d)
                  \<and> find (\<lambda>j. j_id j = j_id b) (jobs d')
                      = Some (b\<lparr>sectors := sectors b @
                                     [\<lparr>sector = c_sector payload,
                                       requiredTypes = build_required_types_for_sector (c_sector payload),
                                       currentIndex = 0, status = ''PENDING''\<rparr>]\<rparr>)
                  \<and> set (jobs d') \<subseteq> insert (b\<lparr>sectors := sectors b @
                                     [\<lparr>sector = c_sector payload,
                                       requiredTypes = build_required_types_for_sector (c_sector payload),
                                       currentIndex = 0, status = ''PENDING''\<rparr>]\<rparr>) (set (jobs d))))"
proof (intro conjI impI)
  assume "sector_by_id (sectors b) (c_sector payload) \<noteq> None"
  then show "create_or_extend_job norm_phone build_required_types_for_sector now d payload
              = (d, Inl (HTTP409 (c_sector payload)))"
    using w st b by (auto simp add: create_or_extend_job_def utils_sector_by_id_def Let_def)
next
  let ?blk = "\<lparr>sector = c_sector payload,
               requiredTypes = build_required_types_for_sector (c_sector payload),
               currentIndex = 0, status = ''PENDING''\<rparr>"
  let ?js = "push_sector (j_id b) ?blk (jobs d)"
  assume a: "sector_by_id (sectors b) (c_sector payload) = None \<and> distinct (map j_id (jobs d))"
  have fb: "find (\<lambda>j. j_id j = j_id b) (jobs d) = Some b"
    using a b by (simp add: distinct_find_by_id)
  have fu: "find (\<lambda>j. j_id j = j_id b) ?js = Some (b\<lparr>sectors := sectors b @ [?blk]\<rparr>)"
    by (simp add: find_push_sector fb)
  have r: "create_or_extend_job norm_phone build_required_types_for_sector now d payload
             = (d\<lparr>jobs := ?js\<rparr>, Inr (b\<lparr>sectors := sectors b @ [?blk]\<rparr>))"
    using w st b a fu by (simp add: create_or_extend_job_def utils_sector_by_id_def Let_def sector_block_def)
  have len: "length ?js = length (jobs d)"
    by (simp add: push_sector_def length_update_one)
  have sub: "set ?js \<subseteq> insert (b\<lparr>sectors := sectors b @ [?blk]\<rparr>) (set (jobs d))"
    unfolding push_sector_def using fb by (rule set_update_one_subset)
  show "\<exists>d'. create_or_extend_job norm_phone build_required_types_for_sector now d payload
                       = (d', Inr (b\<lparr>sectors := sectors b @ [?blk]\<rparr>))
                  \<and> photos d' = photos d
                  \<and> length (jobs d') = length (jobs d)
                  \<and> find (\<lambda>j. j_id j = j_id b) (jobs d') = Some (b\<lparr>sectors := sectors b @ [?blk]\<rparr>)
                  \<and> set (jobs d') \<subseteq> insert (b\<lparr>sectors := sectors b @ [?blk]\<rparr>) (set (jobs d))"
    using r len fu sub by simp
qed


theorem create_or_extend_job_sector_witness:
  "strip ''9999'' \<noteq> [] \<and> strip '' S1 '' \<noteq> []
   \<and> find (\<lambda>j. workerPhone j = strip ''9999'' \<and> siteId j = strip '' S1 '') (jobs happy_db)
       = Some happy_job
   \<and> sector_by_id (sectors happy_job) 1 \<noteq> None
   \<and> create_or_extend_job (\<lambda>s. s) (\<lambda>n. [''LABELLING'', ''AZIMUTH'']) ''2026-01-01'' happy_db
         \<lparr>c_workerPhone = ''9999'', c_siteId = '' S1 '', c_sector = 1\<rparr>
       = (happy_db, Inl (HTTP409 1))
   \<and> sector_by_id (sectors happy_job) 2 = None
   \<and> distinct (map j_id (jobs happy_db))
   \<and> (\<exists>d'. create_or_extend_job (\<lambda>s. s) (\<lambda>n. [''LABELLING'', ''AZIMUTH'']) ''2026-01-01'' happy_db
                \<lparr>c_workerPhone = ''9999'', c_siteId = '' S1 '', c_sector = 2\<rparr>
              = (d', Inr (happy_job\<lparr>sectors := sectors happy_job @
                            [\<lparr>sector = 2, requiredTypes = [''LABELLING'', ''AZIMUTH''],
                              currentIndex = 0, status = ''PENDING''\<rparr>]\<rparr>))
            \<and> length (jobs d') = 1)"
proof -
  have w: "strip ''9999'' \<noteq> []" by (simp add: strip_9999)
  have st: "strip '' S1 '' \<noteq> []" by (simp add: strip_S1)
  have b: "find (\<lambda>j. workerPhone j = strip ''9999'' \<and> siteId j = strip '' S1 '') (jobs happy_db)
             = Some happy_job"
    by (simp add: strip_9999 strip_S1 happy_db_def happy_job_def)
  have s1: "sector_by_id (sectors happy_job) 1 \<noteq> None" by (simp add: happy_job_def)
  have s2: "sector_by_id (sectors happy_job) 2 = None" by (simp add: happy_job_def)
  have dj: "distinct (map j_id (jobs happy_db))" by (simp add: happy_db_def)
  have len: "length (jobs happy_db) = 1" by (simp add: happy_db_def)
  note t1 = create_or_extend_job_sector [where norm_phone = "\<lambda>s. s" and d = happy_db and b = happy_job
      and payload = "\<lparr>c_workerPhone = ''9999'', c_siteId = '' S1 '', c_sector = 1\<rparr>"
      and build_required_types_for_sector = "\<lambda>n. [''LABELLING'', ''AZIMUTH'']"
      and now = "''2026-01-01''", simplified, OF w st b, THEN conjunct1]
  note t2 = create_or_extend_job_sector [where norm_phone = "\<lambda>s. s" and d = happy_db and b = happy_job
      and payload = "\<lparr>c_workerPhone = ''9999'', c_siteId = '' S1 '', c_sector = 2\<rparr>"
      and build_required_types_for_sector = "\<lambda>n. [''LABELLING'', ''AZIMUTH'']"
      and now = "''2026-01-01''", simplified, OF w st b, THEN conjunct2]
  have r1: "create_or_extend_job (\<lambda>s. s) (\<lambda>n. [''LABELLING'', ''AZIMUTH'']) ''2026-01-01'' happy_db
         \<lparr>c_workerPhone = ''9999'', c_siteId = '' S1 '', c_sector = 1\<rparr>
       = (happy_db, Inl (HTTP409 1))"
    using t1 s1 by blast
  have r2: "\<exists>d'. create_or_extend_job (\<lambda>s. s) (\<lambda>n. [''LABELLING'', ''AZIMUTH'']) ''2026-01-01'' happy_db
                \<lparr>c_workerPhone = ''9999'', c_siteId = '' S1 '', c_sector = 2\<rparr>
              = (d', Inr (happy_job\<lparr>sectors := sectors happy_job @
                            [\<lparr>sector = 2, requiredTypes = [''LABELLING'', ''AZIMUTH''],
                              currentIndex = 0, status = ''PENDING''\<rparr>]\<rparr>))
            \<and> length (jobs d') = 1"
    using t2 s2 dj len by auto
  show ?thesis
    using w st b s1 s2 dj r1 r2 by blast
qed

section \<open>Persistence failure at ingestion\<close>

text \<open>
  C8. Take an inbound event that the handler would accept with a working blob store and a
  working insert, scheduling the task \<open>t\<close> (so the event bears media, and everything before
  the persistence step went through). If for this event the blob-store write raises, or
  the insert of the placeholder photo raises, the handler replies with the retry prompt
  "could not save", schedules no background task and adds no photo (first conjunct).
  Whenever a background task is scheduled, the insert did not raise, the blob was written,
  and the store holds the placeholder photo of the task's job, sector and type hint as its
  last photo, with status PROCESSING: the task is scheduled only after the placeholder is
  in the store (second conjunct).
\<close>

theorem persistence_failure_skips_scheduling:
  "(\<forall>u t. snd (whatsapp_webhook (x\<lparr>put_bytes := \<lambda>k b. Some u, insert_one_raises := False\<rparr>) d body)
             = (GotPhoto, Some t)
           \<and> (insert_one_raises x
                \<or> put_bytes x (new_image_key x (t_job_id t) (t_sector t) (t_hint t)) (t_data t) = None)
         \<longrightarrow> snd (whatsapp_webhook x d body) = (CouldNotSave, None)
             \<and> photos (fst (whatsapp_webhook x d body)) = photos d)
   \<and> (\<forall>t. snd (snd (whatsapp_webhook x d body)) = Some t \<longrightarrow>
          \<not> insert_one_raises x
          \<and> fst (snd (whatsapp_webhook x d body)) = GotPhoto
          \<and> (\<exists>url. put_bytes x (new_image_key x (t_job_id t) (t_sector t) (t_hint t)) (t_data t) = Some url
                \<and> photos (fst (whatsapp_webhook x d body))
                    = photos d @ [placeholder_photo (t_job_id t) (t_sector t) (t_hint t)
                                    (new_image_key x (t_job_id t) (t_sector t) (t_hint t)) (Some url)])
          \<and> p_status (last (photos (fst (whatsapp_webhook x d body)))) = Some ''PROCESSING'')"
proof (intro conjI allI impI)
  fix u t
  assume a: "snd (whatsapp_webhook (x\<lparr>put_bytes := \<lambda>k b. Some u, insert_one_raises := False\<rparr>) d body)
               = (GotPhoto, Some t)
             \<and> (insert_one_raises x
                  \<or> put_bytes x (new_image_key x (t_job_id t) (t_sector t) (t_hint t)) (t_data t) = None)"
  from webhook_storage_failure [where x = x and u = u and d = d and body = body and t = t] a
  show "snd (whatsapp_webhook x d body) = (CouldNotSave, None)"
    and "photos (fst (whatsapp_webhook x d body)) = photos d"
    by simp_all
next
  fix t
  assume s: "snd (snd (whatsapp_webhook x d body)) = Some t"
  note w = webhook_scheduled [OF s]
  show "\<not> insert_one_raises x" using w by simp
  show "fst (snd (whatsapp_webhook x d body)) = GotPhoto" using w by simp
  show "\<exists>url. put_bytes x (new_image_key x (t_job_id t) (t_sector t) (t_hint t)) (t_data t) = Some url
                \<and> photos (fst (whatsapp_webhook x d body))
                    = photos d @ [placeholder_photo (t_job_id t) (t_sector t) (t_hint t)
                                    (new_image_key x (t_job_id t) (t_sector t) (t_hint t)) (Some url)]"
    using w by simp
  then show "p_status (last (photos (fst (whatsapp_webhook x d body)))) = Some ''PROCESSING''"
    by (auto simp add: placeholder_photo_def)
qed

theorem persistence_failure_skips_scheduling_witness:
  "snd (whatsapp_webhook
          ((demo_ext\<lparr>put_bytes := \<lambda>k b. None\<rparr>)
             \<lparr>put_bytes := \<lambda>k b. Some ''s3://bucket/jobs/1/raw/0-k-s1_labelling.jpg'',
              insert_one_raises := False\<rparr>) happy_db (FormBody demo_form))
     = (GotPhoto, Some \<lparr>t_worker = ''9999'', t_job_id = 1, t_sector = 1, t_hint = ''LABELLING'',
                         t_data = [255, 216, 255]\<rparr>)
   \<and> put_bytes (demo_ext\<lparr>put_bytes := \<lambda>k b. None\<rparr>)
         ''jobs/1/raw/0-k-s1_labelling.jpg'' [255, 216, 255] = None
   \<and> snd (whatsapp_webhook (demo_ext\<lparr>put_bytes := \<lambda>k b. None\<rparr>) happy_db (FormBody demo_form))
       = (CouldNotSave, None)
   \<and> photos (fst (whatsapp_webhook (demo_ext\<lparr>put_bytes := \<lambda>k b. None\<rparr>) happy_db (FormBody demo_form)))
       = photos happy_db
   \<and> snd (snd (whatsapp_webhook demo_ext happy_db (FormBody demo_form)))
       = Some \<lparr>t_worker = ''9999'', t_job_id = 1, t_sector = 1, t_hint = ''LABELLING'',
                t_data = [255, 216, 255]\<rparr>
   \<and> p_status (last (photos (fst (whatsapp_webhook demo_ext happy_db (FormBody demo_form)))))
       = Some ''PROCESSING''"
proof -
  let ?t = "\<lparr>t_worker = ''9999'', t_job_id = 1, t_sector = 1, t_hint = ''LABELLING'',
             t_data = [255, 216, 255]\<rparr>"
  let ?bad = "demo_ext\<lparr>put_bytes := \<lambda>k b. None\<rparr>"
  have same: "?bad\<lparr>put_bytes := \<lambda>k b. Some ''s3://bucket/jobs/1/raw/0-k-s1_labelling.jpg'',
                    insert_one_raises := False\<rparr> = demo_ext"
    by (simp add: demo_ext_def)
  have ok: "snd (whatsapp_webhook
                  (?bad\<lparr>put_bytes := \<lambda>k b. Some ''s3://bucket/jobs/1/raw/0-k-s1_labelling.jpg'',
                         insert_one_raises := False\<rparr>) happy_db (FormBody demo_form))
              = (GotPhoto, Some ?t)"
    by (simp only: same webhook_happy_ok snd_conv)
  have pf: "put_bytes ?bad ''jobs/1/raw/0-k-s1_labelling.jpg'' [255, 216, 255] = None"
    by simp
  have key: "new_image_key ?bad (t_job_id ?t) (t_sector ?t) (t_hint ?t) = ''jobs/1/raw/0-k-s1_labelling.jpg''"
    by (simp add: demo_ext_def)
  have sch: "snd (snd (whatsapp_webhook demo_ext happy_db (FormBody demo_form))) = Some ?t"
    by (simp only: webhook_happy_ok snd_conv)
  note th1 = persistence_failure_skips_scheduling [where x = ?bad and d = happy_db
      and body = "FormBody demo_form", THEN conjunct1, rule_format,
      where u = "''s3://bucket/jobs/1/raw/0-k-s1_labelling.jpg''" and t = ?t]
  note th2 = persistence_failure_skips_scheduling [where x = demo_ext and d = happy_db
      and body = "FormBody demo_form", THEN conjunct2, rule_format, OF sch]
  have r1: "snd (whatsapp_webhook ?bad happy_db (FormBody demo_form)) = (CouldNotSave, None)
            \<and> photos (fst (whatsapp_webhook ?bad happy_db (FormBody demo_form))) = photos happy_db"
    using th1 ok pf key by simp
  show ?thesis
    using ok pf r1 sch th2 by simp
qed

section \<open>Completion of a job without sectors\<close>

text \<open>
  C2. The claim asks that a job be DONE after a fully processed inbound event exactly when
  its sector list is non-empty and all its sectors are done, so that a job with an empty
  sector list is never marked DONE. For jobs with at least one sector this is
  \<open>inbound_event_done_iff\<close>. The handler, however, marks the job DONE whenever the
  selector returns none, and the selector returns none on the empty list, where
  \<open>all_sectors_done\<close> is false: a message of the worker of a sector-less job in progress
  turns that job DONE.
\<close>

theorem sectorless_job_marked_done:
  "sectors sectorless_job = []
   \<and> \<not> all_sectors_done (sectors sectorless_job)
   \<and> stored_job_status sectorless_db 1 = Some ''IN_PROGRESS''
   \<and> stored_job_status
        (inbound_event demo_ext (\<lambda>b. Some b) (\<lambda>i. i) (\<lambda>i e hs. Some (verdict_of e ''PASS'' []))
           sectorless_db (FormBody demo_form)) 1 = Some ''DONE''
   \<and> fst (snd (whatsapp_webhook demo_ext sectorless_db (FormBody demo_form))) = AllSectorsComplete"
proof -
  have a: "sectors sectorless_job = []" by (simp add: sectorless_job_def)
  have b: "\<not> all_sectors_done (sectors sectorless_job)" by (simp add: a all_sectors_done_def)
  have c: "stored_job_status sectorless_db 1 = Some ''IN_PROGRESS''"
    by (simp add: stored_job_status_def sectorless_db_def sectorless_job_def)
  have d: "inbound_event demo_ext (\<lambda>b. Some b) (\<lambda>i. i) (\<lambda>i e hs. Some (verdict_of e ''PASS'' []))
             sectorless_db (FormBody demo_form)
           = sectorless_db\<lparr>jobs := [sectorless_job\<lparr>j_status := ''DONE''\<rparr>]\<rparr>"
    by (simp add: inbound_event_def webhook_sectorless)
  have e: "stored_job_status (sectorless_db\<lparr>jobs := [sectorless_job\<lparr>j_status := ''DONE''\<rparr>]\<rparr>) 1
             = Some ''DONE''"
    by (simp add: stored_job_status_def sectorless_job_def)
  show ?thesis
    using a b c e by (simp add: d webhook_sectorless)
qed

theorem sectorless_job_marked_done_witness:
  "truthy_str (MediaUrl0 demo_form)
   \<and> take 6 (str_or (MediaContentType0 demo_form) []) = ''image/''
   \<and> pick_active_sector sectorless_job = None
   \<and> stored_job_status
        (inbound_event demo_ext (\<lambda>b. Some b) (\<lambda>i. i) (\<lambda>i e hs. Some (verdict_of e ''PASS'' []))
           sectorless_db (FormBody demo_form)) 1 = Some ''DONE''"
proof -
  have a: "truthy_str (MediaUrl0 demo_form)" by (simp add: demo_form_def)
  have b: "take 6 (str_or (MediaContentType0 demo_form) []) = ''image/''" by (simp add: demo_form_def)
  have c: "pick_active_sector sectorless_job = None"
    by (simp add: pick_active_sector_def sectorless_job_def)
  show ?thesis
    using sectorless_job_marked_done a b c by simp
qed

section \<open>A verdict without a detected type\<close>




section \<open>Status and reasons of a resolved photo\<close>



section \<open>The scope of the duplicate detection\<close>

text \<open>
  C6. The reference list holds exactly the hashes of the stored photos of the same job,
  the same sector and the expected type (compared as the upper-cased token under which
  photos are recorded) whose status is PASS or FAIL and whose hash passes the source's
  truth test, which a null hash and an empty string fail (first conjunct); on stores in
  which no photo carries the empty string as its hash, which the routes keep so as long as
  no verdict carries it, these are exactly the non-null hashes (second conjunct). Photos of another job, another sector or another type contribute
  nothing (third conjunct), and removing them changes nothing (fourth conjunct). An
  orchestrator run that finds its job and decodes the image consults the pipeline at this
  list, built from the stored photos: if the pipeline raises there, the run leaves the
  store as it is; if it returns a verdict there, the run resolves the last photo of the job
  with that verdict and moves the sector as that verdict says; and a pipeline that agrees
  with it at this list gives the same run (fifth conjunct). A direct upload consults the
  pipeline at the list built from the photos stored before the upload: if the pipeline
  raises there, the response is the pipeline failure and no photo is added; if it returns
  a verdict there, the photo that is appended is made from that verdict (sixth conjunct).
\<close>

theorem reference_hashes_scope:
  "set (prev_phashes ps jid sid expected)
     = {h. \<exists>p \<in> set ps. jobId p = jid \<and> p_sector p = sid \<and> p_type p = upper (str_or expected [])
            \<and> (p_status p = Some ''PASS'' \<or> p_status p = Some ''FAIL'')
            \<and> phash p = Some h \<and> h \<noteq> []}
   \<and> (list_all (\<lambda>p. phash p \<noteq> Some []) ps \<longrightarrow>
        set (prev_phashes ps jid sid expected)
          = {h. \<exists>p \<in> set ps. jobId p = jid \<and> p_sector p = sid \<and> p_type p = upper (str_or expected [])
                 \<and> (p_status p = Some ''PASS'' \<or> p_status p = Some ''FAIL'')
                 \<and> phash p = Some h})
   \<and> prev_phashes (filter (\<lambda>p. jobId p \<noteq> jid \<or> p_sector p \<noteq> sid
                                \<or> p_type p \<noteq> upper (str_or expected [])) ps) jid sid expected = []
   \<and> prev_phashes (filter (\<lambda>p. jobId p = jid \<and> p_sector p = sid
                                \<and> p_type p = upper (str_or expected [])) ps) jid sid expected
       = prev_phashes ps jid sid expected
   \<and> (find (\<lambda>j. j_id j = jid) (jobs d) = Some jb \<and> load_bgr data = Some img \<longrightarrow>
        (run_pipeline (downscale img) (current_expected_type_for_sector jb sid)
              (prev_phashes (photos d) jid sid (current_expected_type_for_sector jb sid)) = None \<longrightarrow>
            process_and_notify load_bgr downscale run_pipeline d jid sid data = d)
         \<and> (run_pipeline (downscale img) (current_expected_type_for_sector jb sid)
              (prev_phashes (photos d) jid sid (current_expected_type_for_sector jb sid)) = Some result \<longrightarrow>
            photos (process_and_notify load_bgr downscale run_pipeline d jid sid data)
              = update_last (\<lambda>p. jobId p = jid)
                  (resolve_photo result (effective_type result (current_expected_type_for_sector jb sid)))
                  (photos d)
            \<and> last_photo (process_and_notify load_bgr downscale run_pipeline d jid sid data) jid
                = map_option
                    (resolve_photo result (effective_type result (current_expected_type_for_sector jb sid)))
                    (last_photo d jid)
            \<and> stored_sector (process_and_notify load_bgr downscale run_pipeline d jid sid data) jid sid
                = (if advance_condition result (current_expected_type_for_sector jb sid)
                   then map_option (\<lambda>s. if int (length (requiredTypes s)) \<le> currentIndex s + 1
                             then s\<lparr>currentIndex := currentIndex s + 1, status := ''DONE''\<rparr>
                             else s\<lparr>currentIndex := currentIndex s + 1\<rparr>) (sector_by_id (sectors jb) sid)
                   else sector_by_id (sectors jb) sid))
         \<and> (run_pipeline (downscale img) (current_expected_type_for_sector jb sid)
              (prev_phashes (photos d) jid sid (current_expected_type_for_sector jb sid))
            = run_pipeline' (downscale img) (current_expected_type_for_sector jb sid)
              (prev_phashes (photos d) jid sid (current_expected_type_for_sector jb sid)) \<longrightarrow>
            process_and_notify load_bgr downscale run_pipeline d jid sid data
            = process_and_notify load_bgr downscale run_pipeline' d jid sid data))
   \<and> (distinct (map j_id (jobs du))
        \<and> find_or_create_job du worker site sid = (dn, Some jc)
        \<and> load_bgr data = Some imgu \<longrightarrow>
        photos dn = photos du
         \<and> (runu imgu (current_expected_type_for_sector jc sid)
               (prev_phashes (photos du) (j_id jc) sid (current_expected_type_for_sector jc sid)) = None \<longrightarrow>
            debug_upload x load_bgr runu du worker site sid data = (dn, PipelineCrashed500))
         \<and> (runu imgu (current_expected_type_for_sector jc sid)
               (prev_phashes (photos du) (j_id jc) sid (current_expected_type_for_sector jc sid))
               = Some resultu
            \<and> put_bytes x (new_image_key x (j_id jc) sid
                              (effective_type resultu (current_expected_type_for_sector jc sid))) data
                = Some url
            \<and> \<not> insert_one_raises x \<longrightarrow>
            photos (fst (debug_upload x load_bgr runu du worker site sid data))
              = photos du @ [upload_photo (j_id jc) sid
                               (effective_type resultu (current_expected_type_for_sector jc sid))
                               (new_image_key x (j_id jc) sid
                                  (effective_type resultu (current_expected_type_for_sector jc sid)))
                               (Some url) resultu]))"
proof -
  note a = set_prev_phashes [of ps jid sid expected]
  have b: "list_all (\<lambda>p. phash p \<noteq> Some []) ps \<longrightarrow>
        set (prev_phashes ps jid sid expected)
          = {h. \<exists>p \<in> set ps. jobId p = jid \<and> p_sector p = sid \<and> p_type p = upper (str_or expected [])
                 \<and> (p_status p = Some ''PASS'' \<or> p_status p = Some ''FAIL'')
                 \<and> phash p = Some h}"
    by (rule impI) (rule set_prev_phashes_nonnull)
  note c = prev_phashes_other_scope [of jid sid expected ps]
  note e = prev_phashes_same_scope [of jid sid expected ps]
  note o = impI [OF orchestrator_uses_reference_hashes
      [where load_bgr = load_bgr and downscale = downscale and run_pipeline = run_pipeline
         and run_pipeline' = run_pipeline' and d = d and jid = jid and sid = sid and jb = jb
         and data = data and img = img and result = result]]
  note u = impI [OF upload_uses_reference_hashes
      [where load_bgr = load_bgr and runu = runu and du = du and dn = dn and jc = jc
         and worker = worker and site = site and sid = sid and data = data and imgu = imgu
         and x = x and resultu = resultu and url = url]]
  show ?thesis
    by (rule conjI [OF a conjI [OF b conjI [OF c conjI [OF e conjI [OF o u]]]]])
qed

theorem reference_hashes_scope_witness:
  "list_all (\<lambda>p. phash p \<noteq> Some []) (photos seen_db)
   \<and> prev_phashes (photos seen_db) 1 1 (Some ''LABELLING'') = [''aa11'']
   \<and> {h. \<exists>p \<in> set (photos seen_db). jobId p = 1 \<and> p_sector p = 1 \<and> p_type p = ''LABELLING''
            \<and> (p_status p = Some ''PASS'' \<or> p_status p = Some ''FAIL'')
            \<and> phash p = Some h} = {''aa11''}
   \<and> find (\<lambda>j. j_id j = 1) (jobs seen_db) = Some happy_job
   \<and> map_option reason
        (last_photo (process_and_notify (\<lambda>b. Some b) (\<lambda>i. i) echo_pipeline seen_db 1 1
                       [255, 216, 255]) 1) = Some [''aa11'']
   \<and> distinct (map j_id (jobs seen_db))
   \<and> find_or_create_job seen_db ''9999'' ''S1'' 1 = (seen_db, Some happy_job)
   \<and> reason (last (photos (fst (debug_upload demo_ext (\<lambda>b. Some b) echo_pipeline seen_db
                                   ''9999'' ''S1'' 1 [255, 216, 255])))) = [''aa11'']"
proof -
  let ?v = "\<lparr>r_type = Some ''LABELLING'', r_status = Some ''FAIL'', r_reason = Some [''aa11''],
             r_phash = Some ''ee55'', r_ocrText = None, r_fields = None, r_checks = None\<rparr>"
  let ?url = "''s3://bucket/jobs/1/raw/0-k-s1_labelling.jpg''"
  note th = reference_hashes_scope [where ps = "photos seen_db" and jid = 1 and sid = 1
      and expected = "Some ''LABELLING''" and d = seen_db and jb = happy_job
      and load_bgr = "\<lambda>b. Some b" and downscale = "\<lambda>i. i" and data = "[255, 216, 255]"
      and img = "[255, 216, 255]" and run_pipeline = echo_pipeline
      and run_pipeline' = echo_pipeline and result = ?v
      and du = seen_db and dn = seen_db and jc = happy_job and worker = "''9999''"
      and site = "''S1''" and imgu = "[255, 216, 255]" and runu = echo_pipeline
      and x = demo_ext and resultu = ?v and url = ?url]
  note t2 = th [THEN conjunct2, THEN conjunct1]
  note t5 = th [THEN conjunct2, THEN conjunct2, THEN conjunct2, THEN conjunct2, THEN conjunct1]
  note t6 = th [THEN conjunct2, THEN conjunct2, THEN conjunct2, THEN conjunct2, THEN conjunct2]
  have s: "{h. \<exists>p \<in> set (photos seen_db). jobId p = 1 \<and> p_sector p = 1 \<and> p_type p = ''LABELLING''
            \<and> (p_status p = Some ''PASS'' \<or> p_status p = Some ''FAIL'')
            \<and> phash p = Some h} = {''aa11''}"
    using t2 seen_nonnull seen_prev_phashes by (simp add: upper_LABELLING)
  have o: "last_photo (process_and_notify (\<lambda>b. Some b) (\<lambda>i. i) echo_pipeline seen_db 1 1
                         [255, 216, 255]) 1
             = map_option (resolve_photo ?v (effective_type ?v (Some ''LABELLING'')))
                 (last_photo seen_db 1)"
    using t5 seen_find seen_echo by (simp add: happy_expected)
  have r: "map_option reason
        (last_photo (process_and_notify (\<lambda>b. Some b) (\<lambda>i. i) echo_pipeline seen_db 1 1
                       [255, 216, 255]) 1) = Some [''aa11'']"
    using o seen_last_photo by (simp add: resolve_photo_def)
  have u: "photos (fst (debug_upload demo_ext (\<lambda>b. Some b) echo_pipeline seen_db
                                   ''9999'' ''S1'' 1 [255, 216, 255]))
             = photos seen_db @ [upload_photo 1 1 (effective_type ?v (Some ''LABELLING''))
                                   (new_image_key demo_ext 1 1 (effective_type ?v (Some ''LABELLING'')))
                                   (Some ?url) ?v]"
    using t6 seen_distinct seen_find_or_create seen_echo demo_ext_put
    by (simp add: happy_expected happy_job_id)
  have w: "reason (last (photos (fst (debug_upload demo_ext (\<lambda>b. Some b) echo_pipeline seen_db
                                   ''9999'' ''S1'' 1 [255, 216, 255])))) = [''aa11'']"
    using u by (simp add: upload_photo_def)
  from seen_nonnull seen_prev_phashes s seen_find r seen_distinct seen_find_or_create w
  show ?thesis by (intro conjI)
qed

end
